theory Spec2Isabelle
  imports Main
begin

section \<open>Values of the plugin framework\<close>

text \<open>
  A Go \<open>error\<close> is represented by the text its \<open>Error()\<close> method returns; that is all
  the provider ever does with one (it formats it with \<open>%s\<close>).
\<close>

type_synonym error = string

text \<open>
  \<open>diag.Diagnostics\<close>: an ordered sequence of records.  \<open>Append\<close> skips a diagnostic
  that the sequence already contains, \<open>AddError\<close> appends one of severity error, and
  \<open>HasError\<close> looks for a record of severity error.
\<close>

datatype Severity = SeverityError | SeverityWarning

record Diagnostic =
  severity :: Severity
  summary :: string
  detail :: string

type_synonym Diagnostics = "Diagnostic list"

fun Append :: "Diagnostics \<Rightarrow> Diagnostics \<Rightarrow> Diagnostics" where
  "Append diags [] = diags"
| "Append diags (d # ds) = Append (if d \<in> set diags then diags else diags @ [d]) ds"

definition NewErrorDiagnostic :: "string \<Rightarrow> string \<Rightarrow> Diagnostic" where
  "NewErrorDiagnostic s d = \<lparr>severity = SeverityError, summary = s, detail = d\<rparr>"

definition AddError :: "string \<Rightarrow> string \<Rightarrow> Diagnostics \<Rightarrow> Diagnostics" where
  "AddError s d diags = Append diags [NewErrorDiagnostic s d]"

definition HasError :: "Diagnostics \<Rightarrow> bool" where
  "HasError diags = list_ex (\<lambda>d. severity d = SeverityError) diags"

text \<open>
  \<open>types.String\<close> is null, unknown or a known Go string; \<open>ValueString\<close> gives the empty
  string for the first two.  \<open>types.List\<close> is null, unknown or a known sequence of
  elements (here always of element type string).
\<close>

datatype tf_string = StringNull | StringUnknown | StringValue string

fun ValueString :: "tf_string \<Rightarrow> string" where
  "ValueString (StringValue s) = s"
| "ValueString StringNull = []"
| "ValueString StringUnknown = []"

datatype tf_list = ListNull | ListUnknown | ListValue "tf_string list"

text \<open>
  A Go \<open>[]string\<close> is \<open>None\<close> when it is the nil slice.  \<open>ElementsAs(ctx, &scopes, false)\<close>
  converts a list into one: a null list gives the nil slice, an unknown list and a null or
  unknown element give an error diagnostic and leave the target as it was (nil, at both call
  sites).  \<open>ListValueFrom(ctx, types.StringType, scopes)\<close> is the way back: the nil slice
  gives the null list, any other slice the known list of its known strings.  The framework's
  diagnostic carries a longer detail text; only its severity is read by the provider.
\<close>

type_synonym string_slice = "string list option"

fun elems_as_strings :: "tf_string list \<Rightarrow> error + string list" where
  "elems_as_strings [] = Inr []"
| "elems_as_strings (StringValue s # xs) =
     (case elems_as_strings xs of Inl e \<Rightarrow> Inl e | Inr ss \<Rightarrow> Inr (s # ss))"
| "elems_as_strings (StringNull # xs) = Inl ''unhandled null value''"
| "elems_as_strings (StringUnknown # xs) = Inl ''unhandled unknown value''"

fun ElementsAs :: "tf_list \<Rightarrow> Diagnostics \<times> string_slice" where
  "ElementsAs ListNull = ([], None)"
| "ElementsAs ListUnknown =
     ([NewErrorDiagnostic ''Value Conversion Error'' ''unhandled unknown value''], None)"
| "ElementsAs (ListValue xs) =
     (case elems_as_strings xs of
        Inl e \<Rightarrow> ([NewErrorDiagnostic ''Value Conversion Error'' e], None)
      | Inr ss \<Rightarrow> ([], Some ss))"

fun ListValueFrom :: "string_slice \<Rightarrow> tf_list \<times> Diagnostics" where
  "ListValueFrom None = (ListNull, [])"
| "ListValueFrom (Some ss) = (ListValue (map StringValue ss), [])"

section \<open>Shared configuration\<close>

text \<open>
  \<open>ProviderData\<close> of provider.go.  The \<open>*http.Client\<close> is a pointer and may be nil; the
  only client the provider ever stores is \<open>http.DefaultClient\<close>, whose behaviour is the
  \<open>client_Do\<close> of the world below.
\<close>

datatype http_client = DefaultClient

record ProviderData =
  client :: "http_client option"
  endpoint :: string
  username :: string
  password :: string

record AuthProxy =
  version :: string

record Model =
  md_Endpoint :: tf_string
  md_Password :: tf_string
  md_Username :: tf_string

section \<open>Descriptors and wire shapes\<close>

record TenantResourceModel =
  tm_Name :: tf_string
  tm_ID :: tf_string

record RoleResourceModel =
  rm_ID :: tf_string
  rm_Name :: tf_string
  rm_Tenant :: tf_string
  rm_Scopes :: tf_list

record TenantDataSourceModel =
  dm_ID :: tf_string
  dm_Name :: tf_string

text \<open>
  What \<open>json.Marshal\<close> is given: the exported fields of a struct under their \<open>json\<close> tags,
  in declaration order.  A field is a Go string or a \<open>[]string\<close>.
\<close>

datatype json_value = JString string | JStrings string_slice

type_synonym json_object = "(string \<times> json_value) list"

record createRequest =
  cq_Name :: string

definition createRequest_json :: "createRequest \<Rightarrow> json_object" where
  "createRequest_json q = [(''tenant'', JString (cq_Name q))]"

record updateRequest =
  uq_Name :: string
  uq_NewName :: string

definition updateRequest_json :: "updateRequest \<Rightarrow> json_object" where
  "updateRequest_json q =
     [(''tenant'', JString (uq_Name q)), (''new_tenant'', JString (uq_NewName q))]"

record createRoleRequest =
  crq_Name :: string
  crq_Tenant :: string
  crq_Scopes :: string_slice

definition createRoleRequest_json :: "createRoleRequest \<Rightarrow> json_object" where
  "createRoleRequest_json q =
     [(''name'', JString (crq_Name q)), (''tenant'', JString (crq_Tenant q)),
      (''scopes'', JStrings (crq_Scopes q))]"

text \<open>\<open>updateRoleRequest\<close> is declared in role_resource.go; no function constructs one.\<close>

record updateRoleRequest =
  urq_Name :: string
  urq_Tenant :: string
  urq_NewName :: string
  urq_NewScopes :: string

definition updateRoleRequest_json :: "updateRoleRequest \<Rightarrow> json_object" where
  "updateRoleRequest_json q =
     [(''name'', JString (urq_Name q)), (''tenant'', JString (urq_Tenant q)),
      (''new_name'', JString (urq_NewName q)), (''new_scopes'', JString (urq_NewScopes q))]"

text \<open>The structs that response bodies are decoded into.\<close>

record createResponse =
  cr_ID :: string

record updateResponse =
  ur_ID :: string

record readResponse =
  rr_ID :: string
  rr_Name :: string

record createRoleResponse =
  crr_ID :: string

record readRoleResponse =
  rrr_ID :: string
  rrr_Name :: string
  rrr_Tenant :: string
  rrr_Scopes :: string_slice

record tenantDataReadResponse =
  dr_ID :: string
  dr_Name :: string

section \<open>HTTP and the world outside\<close>

text \<open>
  A request as the provider builds it: method, URL, optional body, and the credentials
  that \<open>SetBasicAuth\<close> put into its Authorization header (\<open>None\<close> before the call).
  A response is its status code and what \<open>io.ReadAll(res.Body)\<close> returns.
\<close>

record Request =
  req_method :: string
  req_url :: string
  req_body :: "string option"
  req_basic_auth :: "(string \<times> string) option"

record Response =
  StatusCode :: int
  Body :: "error + string"

definition SetBasicAuth :: "Request \<Rightarrow> string \<Rightarrow> string \<Rightarrow> Request" where
  "SetBasicAuth request u p = request\<lparr>req_basic_auth := Some (u, p)\<rparr>"

text \<open>
  Everything the provider calls and does not define is a field of the world: the JSON
  encoder and the decoders (one per target struct), the validation that
  \<open>http.NewRequestWithContext\<close> performs on method and URL, the round trip of the HTTP
  client, the \<open>%#v\<close> rendering of the provider data, and the diagnostics with which the
  framework answers \<open>State.Set\<close>.
\<close>

record world =
  json_Marshal :: "json_object \<Rightarrow> error + string"
  NewRequest_err :: "string \<Rightarrow> string \<Rightarrow> error option"
  client_Do :: "Request \<Rightarrow> error + Response"
  Unmarshal_createResponse :: "string \<Rightarrow> error + createResponse"
  Unmarshal_updateResponse :: "string \<Rightarrow> error + updateResponse"
  Unmarshal_readResponse :: "string \<Rightarrow> error + readResponse"
  Unmarshal_createRoleResponse :: "string \<Rightarrow> error + createRoleResponse"
  Unmarshal_readRoleResponse :: "string \<Rightarrow> error + readRoleResponse"
  Unmarshal_tenantDataReadResponse :: "string \<Rightarrow> error + tenantDataReadResponse"
  GoSyntax_ProviderData :: "ProviderData option \<Rightarrow> string"
  Set_TenantResourceModel :: "TenantResourceModel \<Rightarrow> Diagnostics"
  Set_RoleResourceModel :: "RoleResourceModel \<Rightarrow> Diagnostics"
  Set_TenantDataSourceModel :: "TenantDataSourceModel \<Rightarrow> Diagnostics"

definition NewRequestWithContext ::
  "world \<Rightarrow> string \<Rightarrow> string \<Rightarrow> string option \<Rightarrow> error + Request" where
  "NewRequestWithContext w m u b =
     (case NewRequest_err w m u of
        Some e \<Rightarrow> Inl e
      | None \<Rightarrow> Inr \<lparr>req_method = m, req_url = u, req_body = b, req_basic_auth = None\<rparr>)"

text \<open>Entries of the structured log (\<open>tflog\<close>): level, message, fields.\<close>

datatype log_level = Debug | Error | Trace

type_synonym log_entry = "log_level \<times> string \<times> (string \<times> string) list"

section \<open>Requests and responses of the framework\<close>

text \<open>
  \<open>req.Plan.Get(ctx, &data)\<close>, \<open>req.State.Get\<close> and \<open>req.Config.Get\<close> return diagnostics
  and fill the target; the target of the resources is a pointer, which stays nil
  (\<open>None\<close>) when nothing was written.  A resource's request is represented by what its
  \<open>Get\<close> yields.  The response holds the diagnostics and the state; \<open>State.Set\<close>
  replaces the state unless the conversion reports an error.
\<close>

type_synonym 'm tfsdk_Get = "Diagnostics \<times> 'm option"

record 'm Resp =
  Diags :: Diagnostics
  State :: "'m option"

definition Diags_Append :: "'m Resp \<Rightarrow> Diagnostics \<Rightarrow> 'm Resp" where
  "Diags_Append resp ds = resp\<lparr>Diags := Append (Diags resp) ds\<rparr>"

definition Diags_AddError :: "'m Resp \<Rightarrow> string \<Rightarrow> string \<Rightarrow> 'm Resp" where
  "Diags_AddError resp s d = resp\<lparr>Diags := AddError s d (Diags resp)\<rparr>"

definition State_Set :: "('m \<Rightarrow> Diagnostics) \<Rightarrow> 'm Resp \<Rightarrow> 'm \<Rightarrow> 'm Resp" where
  "State_Set set_diags resp v =
     (let ds = set_diags v
      in Diags_Append (if HasError ds then resp else resp\<lparr>State := Some v\<rparr>) ds)"

text \<open>
  What one call of an operation leaves behind: the response, the requests handed to the
  HTTP client (in order), the log, and the final value of the local variable \<open>data\<close>.
  A nil dereference ends the call in a panic.
\<close>

record 'm run =
  response :: "'m Resp"
  sent :: "Request list"
  logs :: "log_entry list"
  local_data :: "'m option"

datatype 'm outcome = Panic | Returned "'m run"

text \<open>The requests a call handed to the client; none to speak of when it panicked.\<close>

definition requests_of :: "'m outcome \<Rightarrow> Request list option" where
  "requests_of out = (case out of Panic \<Rightarrow> None | Returned run \<Rightarrow> Some (sent run))"

abbreviation Ret ::
  "'m Resp \<Rightarrow> Request list \<Rightarrow> log_entry list \<Rightarrow> 'm option \<Rightarrow> 'm outcome" where
  "Ret resp ss ls d \<equiv> Returned \<lparr>response = resp, sent = ss, logs = ls, local_data = d\<rparr>"

abbreviation client_error :: "'m Resp \<Rightarrow> string \<Rightarrow> error \<Rightarrow> 'm Resp" where
  "client_error resp msg err \<equiv> Diags_AddError resp ''Client Error'' (msg @ err)"

abbreviation log_auth :: "log_entry list" where
  "log_auth \<equiv> [(Debug, ''Setting basic auth'', []), (Debug, ''Making request'', [])]"

section \<open>The Tenant resource\<close>

text \<open>
  \<open>TenantResource\<close> of the resource file: the shared provider data (a pointer, nil until
  \<open>Configure\<close> stores one) and a \<open>name\<close> that no function of the package assigns.
\<close>

record TenantResource =
  tenant_providerData :: "ProviderData option"
  tenant_name :: string

definition TenantResource_Create ::
  "world \<Rightarrow> TenantResource \<Rightarrow> TenantResourceModel tfsdk_Get \<Rightarrow> TenantResourceModel Resp
     \<Rightarrow> TenantResourceModel outcome" where
  "TenantResource_Create w r plan resp0 =
    (let resp = Diags_Append resp0 (fst plan) in
     if HasError (Diags resp) then Ret resp [] [] (snd plan)
     else case snd plan of None \<Rightarrow> Panic | Some data \<Rightarrow>
      (case json_Marshal w (createRequest_json \<lparr>cq_Name = ValueString (tm_Name data)\<rparr>) of
         Inl err \<Rightarrow>
           Ret (client_error resp ''Unable to create tenant, got error: '' err) [] [] (Some data)
       | Inr marshalled \<Rightarrow>
      (case tenant_providerData r of None \<Rightarrow> Panic | Some pd \<Rightarrow>
      (case NewRequestWithContext w ''POST'' (endpoint pd @ ''/tenants'') (Some marshalled) of
         Inl err \<Rightarrow>
           Ret (client_error resp
                  (''Unable to create tenant, tenantdata: ''
                     @ GoSyntax_ProviderData w (tenant_providerData r) @ '' got error: '') err)
               [] [] (Some data)
       | Inr request0 \<Rightarrow>
      (let request = SetBasicAuth request0 (username pd) (password pd) in
       case client pd of None \<Rightarrow> Panic | Some c \<Rightarrow>
      (case client_Do w request of
         Inl err \<Rightarrow>
           Ret (client_error resp ''Unable to create tenant, got error: '' err)
               [request] log_auth (Some data)
       | Inr res \<Rightarrow>
         if StatusCode res \<noteq> 200 then
           (case Body res of
              Inl err \<Rightarrow>
                Ret (client_error resp
                       ''Unable to handle non 200 status code on tenant creation, got error: '' err)
                    [request] log_auth (Some data)
            | Inr resBody \<Rightarrow>
                Ret resp [request]
                    (log_auth @ [(Error, ''could not create tenant'', [(''body'', resBody)])])
                    (Some data))
         else
           (case Body res of
              Inl err \<Rightarrow>
                Ret (client_error resp ''Unable to create tenant, got error: '' err)
                    [request] log_auth (Some data)
            | Inr resBody \<Rightarrow>
           (case Unmarshal_createResponse w resBody of
              Inl err \<Rightarrow>
                Ret (client_error resp ''Unable to create tenant, got error: '' err)
                    [request] log_auth (Some data)
            | Inr cr \<Rightarrow>
               (let data' = data\<lparr>tm_ID := StringValue (cr_ID cr)\<rparr> in
                Ret (State_Set (Set_TenantResourceModel w) resp data') [request]
                    (log_auth @ [(Debug, ''created a tenant resource, response was'',
                                  [(''id'', cr_ID cr)])])
                    (Some data'))))))))))"

definition TenantResource_Read ::
  "world \<Rightarrow> TenantResource \<Rightarrow> TenantResourceModel tfsdk_Get \<Rightarrow> TenantResourceModel Resp
     \<Rightarrow> TenantResourceModel outcome" where
  "TenantResource_Read w r state resp0 =
    (let resp = Diags_Append resp0 (fst state) in
     if HasError (Diags resp) then Ret resp [] [] (snd state)
     else case tenant_providerData r of None \<Rightarrow> Panic | Some pd \<Rightarrow>
      (case snd state of None \<Rightarrow> Panic | Some data \<Rightarrow>
      (case NewRequestWithContext w ''GET''
              (endpoint pd @ ''/tenants/'' @ ValueString (tm_Name data)) None of
         Inl err \<Rightarrow>
           Ret (client_error resp ''Unable to read tenant, got error: '' err) [] [] (Some data)
       | Inr request0 \<Rightarrow>
      (let request = SetBasicAuth request0 (username pd) (password pd) in
       case client pd of None \<Rightarrow> Panic | Some c \<Rightarrow>
      (case client_Do w request of
         Inl err \<Rightarrow>
           Ret (client_error resp ''Unable to read tenant, got error: '' err)
               [request] log_auth (Some data)
       | Inr res \<Rightarrow>
         if StatusCode res \<noteq> 200 then
           (case Body res of
              Inl err \<Rightarrow>
                Ret (client_error resp
                       ''Unable to handle non 200 status code on tenant read, got error: '' err)
                    [request] log_auth (Some data)
            | Inr resBody \<Rightarrow>
                Ret resp [request]
                    (log_auth @ [(Error, ''could not read tenant'', [(''body'', resBody)])])
                    (Some data))
         else
           (case Body res of
              Inl err \<Rightarrow>
                Ret (client_error resp ''Unable to read tenant, got error: '' err)
                    [request] log_auth (Some data)
            | Inr resBody \<Rightarrow>
           (case Unmarshal_readResponse w resBody of
              Inl err \<Rightarrow>
                Ret (client_error resp ''Unable to read tenant, got error: '' err)
                    [request] log_auth (Some data)
            | Inr newTenant \<Rightarrow>
               (let data' = data\<lparr>tm_ID := StringValue (rr_ID newTenant)\<rparr> in
                Ret (State_Set (Set_TenantResourceModel w) resp data') [request] log_auth
                    (Some data')))))))))"

definition TenantResource_Update ::
  "world \<Rightarrow> TenantResource \<Rightarrow> TenantResourceModel tfsdk_Get \<Rightarrow> TenantResourceModel tfsdk_Get
     \<Rightarrow> TenantResourceModel Resp \<Rightarrow> TenantResourceModel outcome" where
  "TenantResource_Update w r state plan resp0 =
    (let resp = Diags_Append (Diags_Append resp0 (fst state)) (fst plan) in
     if HasError (Diags resp) then Ret resp [] [] (snd plan)
     else case snd state of None \<Rightarrow> Panic | Some old \<Rightarrow>
      (case snd plan of None \<Rightarrow> Panic | Some data \<Rightarrow>
      (case json_Marshal w (updateRequest_json
              \<lparr>uq_Name = ValueString (tm_Name old), uq_NewName = ValueString (tm_Name data)\<rparr>) of
         Inl err \<Rightarrow>
           Ret (client_error resp ''Unable to update tenant, got error: '' err) [] [] (Some data)
       | Inr marshalled \<Rightarrow>
      (case tenant_providerData r of None \<Rightarrow> Panic | Some pd \<Rightarrow>
      (case NewRequestWithContext w ''PATCH'' (endpoint pd @ ''/tenants'') (Some marshalled) of
         Inl err \<Rightarrow>
           Ret (client_error resp ''Unable to update tenant, got error: '' err) [] [] (Some data)
       | Inr request0 \<Rightarrow>
      (let request = SetBasicAuth request0 (username pd) (password pd) in
       case client pd of None \<Rightarrow> Panic | Some c \<Rightarrow>
      (case client_Do w request of
         Inl err \<Rightarrow>
           Ret (client_error resp ''Unable to update tenant, got error: '' err)
               [request] log_auth (Some data)
       | Inr res \<Rightarrow>
         if StatusCode res \<noteq> 200 then
           (case Body res of
              Inl err \<Rightarrow>
                Ret (client_error resp
                       ''Unable to handle non 200 status code on tenant update, got error: '' err)
                    [request] log_auth (Some data)
            | Inr resBody \<Rightarrow>
                Ret resp [request]
                    (log_auth @ [(Error, ''could not update tenant'', [(''body'', resBody)])])
                    (Some data))
         else
           (case Body res of
              Inl err \<Rightarrow>
                Ret (client_error resp ''Unable to update tenant, got error: '' err)
                    [request] log_auth (Some data)
            | Inr resBody \<Rightarrow>
           (case Unmarshal_updateResponse w resBody of
              Inl err \<Rightarrow>
                Ret (client_error resp ''Unable to update tenant, got error: '' err)
                    [request] log_auth (Some data)
            | Inr cr \<Rightarrow>
               (let data' = data\<lparr>tm_ID := StringValue (ur_ID cr)\<rparr> in
                Ret (State_Set (Set_TenantResourceModel w) resp data') [request]
                    (log_auth @ [(Trace, ''updated a tenant resource'', [])])
                    (Some data')))))))))))"

text \<open>
  \<open>Delete\<close> addresses the entity by the receiver's \<open>name\<close>, not by the descriptor; it
  assigns to the local descriptor at the end and never calls \<open>State.Set\<close>.
\<close>

definition TenantResource_Delete ::
  "world \<Rightarrow> TenantResource \<Rightarrow> TenantResourceModel tfsdk_Get \<Rightarrow> TenantResourceModel Resp
     \<Rightarrow> TenantResourceModel outcome" where
  "TenantResource_Delete w r state resp0 =
    (let resp = Diags_Append resp0 (fst state) in
     if HasError (Diags resp) then Ret resp [] [] (snd state)
     else case tenant_providerData r of None \<Rightarrow> Panic | Some pd \<Rightarrow>
      (case NewRequestWithContext w ''DELETE'' (endpoint pd @ ''/tenants/'' @ tenant_name r) None of
         Inl err \<Rightarrow>
           Ret (client_error resp ''Unable to read tenant, got error: '' err) [] [] (snd state)
       | Inr request0 \<Rightarrow>
      (let request = SetBasicAuth request0 (username pd) (password pd) in
       case client pd of None \<Rightarrow> Panic | Some c \<Rightarrow>
      (case client_Do w request of
         Inl err \<Rightarrow>
           Ret (client_error resp ''Unable to delete tenant, got error: '' err)
               [request] log_auth (snd state)
       | Inr res \<Rightarrow>
         if StatusCode res \<noteq> 200 then
           (case Body res of
              Inl err \<Rightarrow>
                Ret (client_error resp
                       ''Unable to handle non 200 status code on tenant deletion, got error: '' err)
                    [request] log_auth (snd state)
            | Inr resBody \<Rightarrow>
                Ret resp [request]
                    (log_auth @ [(Error, ''could not delete tenant'', [(''body'', resBody)])])
                    (snd state))
         else
           (case Body res of
              Inl err \<Rightarrow>
                Ret (client_error resp ''Unable to delete tenant, got error: '' err)
                    [request] log_auth (snd state)
            | Inr resBody \<Rightarrow>
           (case Unmarshal_readResponse w resBody of
              Inl err \<Rightarrow>
                Ret (client_error resp ''Unable to delete tenant, got error: '' err)
                    [request] log_auth (snd state)
            | Inr newTenant \<Rightarrow>
           (case snd state of None \<Rightarrow> Panic | Some data \<Rightarrow>
                Ret resp [request] log_auth
                    (Some (data\<lparr>tm_ID := StringValue (rr_ID newTenant),
                                tm_Name := StringValue (rr_Name newTenant)\<rparr>)))))))))"

section \<open>The Role resource\<close>

text \<open>\<open>RoleResource\<close> of the resource file: the shared provider data and nothing else.\<close>

record RoleResource =
  role_providerData :: "ProviderData option"

definition RoleResource_Create ::
  "world \<Rightarrow> RoleResource \<Rightarrow> RoleResourceModel tfsdk_Get \<Rightarrow> RoleResourceModel Resp
     \<Rightarrow> RoleResourceModel outcome" where
  "RoleResource_Create w r plan resp0 =
    (let resp1 = Diags_Append resp0 (fst plan) in
     case snd plan of None \<Rightarrow> Panic | Some data \<Rightarrow>
      (let (ds, scopes) = ElementsAs (rm_Scopes data);
           resp = Diags_Append resp1 ds in
       if HasError (Diags resp) then Ret resp [] [] (Some data)
       else
      (case json_Marshal w (createRoleRequest_json
              \<lparr>crq_Name = ValueString (rm_Name data), crq_Tenant = ValueString (rm_Tenant data),
               crq_Scopes = scopes\<rparr>) of
         Inl err \<Rightarrow>
           Ret (client_error resp ''Unable to create role, got error: '' err) [] [] (Some data)
       | Inr marshalled \<Rightarrow>
      (case role_providerData r of None \<Rightarrow> Panic | Some pd \<Rightarrow>
      (case NewRequestWithContext w ''POST'' (endpoint pd @ ''/roles'') (Some marshalled) of
         Inl err \<Rightarrow>
           Ret (client_error resp ''Unable to create role, got error: '' err) [] [] (Some data)
       | Inr request0 \<Rightarrow>
      (let request = SetBasicAuth request0 (username pd) (password pd) in
       case client pd of None \<Rightarrow> Panic | Some c \<Rightarrow>
      (case client_Do w request of
         Inl err \<Rightarrow>
           Ret (client_error resp ''Unable to create role, got error: '' err)
               [request] log_auth (Some data)
       | Inr res \<Rightarrow>
         if StatusCode res \<noteq> 200 then
           (case Body res of
              Inl err \<Rightarrow>
                Ret (client_error resp
                       ''Unable to handle non 200 status code on role creation, got error: '' err)
                    [request] log_auth (Some data)
            | Inr resBody \<Rightarrow>
                Ret resp [request]
                    (log_auth @ [(Error, ''could not create role'', [(''body'', resBody)])])
                    (Some data))
         else
           (case Body res of
              Inl err \<Rightarrow>
                Ret (client_error resp ''Unable to create role, got error: '' err)
                    [request] log_auth (Some data)
            | Inr resBody \<Rightarrow>
           (case Unmarshal_createRoleResponse w resBody of
              Inl err \<Rightarrow>
                Ret (client_error resp ''Unable to create role, got error: '' err)
                    [request] log_auth (Some data)
            | Inr cr \<Rightarrow>
               (let data' = data\<lparr>rm_ID := StringValue (crr_ID cr)\<rparr> in
                Ret (State_Set (Set_RoleResourceModel w) resp data') [request]
                    (log_auth @ [(Debug, ''created a role resource, response was'',
                                  [(''id'', crr_ID cr)])])
                    (Some data')))))))))))"

definition RoleResource_Read ::
  "world \<Rightarrow> RoleResource \<Rightarrow> RoleResourceModel tfsdk_Get \<Rightarrow> RoleResourceModel Resp
     \<Rightarrow> RoleResourceModel outcome" where
  "RoleResource_Read w r state resp0 =
    (let resp1 = Diags_Append resp0 (fst state) in
     case snd state of None \<Rightarrow> Panic | Some data \<Rightarrow>
      (let (ds, scopes) = ElementsAs (rm_Scopes data);
           resp = Diags_Append resp1 ds in
       if HasError (Diags resp) then Ret resp [] [] (Some data)
       else
      (case role_providerData r of None \<Rightarrow> Panic | Some pd \<Rightarrow>
      (case NewRequestWithContext w ''GET''
              (endpoint pd @ ''/tenants/'' @ ValueString (rm_Tenant data)
                 @ ''/roles/'' @ ValueString (rm_Name data)) None of
         Inl err \<Rightarrow>
           Ret (client_error resp ''Unable to read tenant, got error: '' err) [] [] (Some data)
       | Inr request0 \<Rightarrow>
      (let request = SetBasicAuth request0 (username pd) (password pd) in
       case client pd of None \<Rightarrow> Panic | Some c \<Rightarrow>
      (case client_Do w request of
         Inl err \<Rightarrow>
           Ret (client_error resp ''Unable to read role, got error: '' err)
               [request] log_auth (Some data)
       | Inr res \<Rightarrow>
         if StatusCode res \<noteq> 200 then
           (case Body res of
              Inl err \<Rightarrow>
                Ret (client_error resp
                       ''Unable to handle non 200 status code on role read, got error: '' err)
                    [request] log_auth (Some data)
            | Inr resBody \<Rightarrow>
                Ret resp [request]
                    (log_auth @ [(Error, ''could not read role'', [(''body'', resBody)])])
                    (Some data))
         else
           (case Body res of
              Inl err \<Rightarrow>
                Ret (client_error resp ''Unable to read role, got error: '' err)
                    [request] log_auth (Some data)
            | Inr resBody \<Rightarrow>
           (case Unmarshal_readRoleResponse w resBody of
              Inl err \<Rightarrow>
                Ret (client_error resp ''Unable to read tenant, got error: '' err)
                    [request] log_auth (Some data)
            | Inr newRole \<Rightarrow>
               (let (listValue, diagnostics) = ListValueFrom scopes;
                    data' = data\<lparr>rm_ID := StringValue (rrr_ID newRole), rm_Scopes := listValue\<rparr>
                in Ret (State_Set (Set_RoleResourceModel w) (Diags_Append resp diagnostics) data')
                       [request] log_auth (Some data'))))))))))"

text \<open>\<open>Update\<close> builds an \<open>updateRequest\<close> and decodes an \<open>updateResponse\<close>.\<close>

definition RoleResource_Update ::
  "world \<Rightarrow> RoleResource \<Rightarrow> RoleResourceModel tfsdk_Get \<Rightarrow> RoleResourceModel tfsdk_Get
     \<Rightarrow> RoleResourceModel Resp \<Rightarrow> RoleResourceModel outcome" where
  "RoleResource_Update w r state plan resp0 =
    (let resp = Diags_Append (Diags_Append resp0 (fst state)) (fst plan) in
     if HasError (Diags resp) then Ret resp [] [] (snd plan)
     else case snd state of None \<Rightarrow> Panic | Some old \<Rightarrow>
      (case snd plan of None \<Rightarrow> Panic | Some data \<Rightarrow>
      (case json_Marshal w (updateRequest_json
              \<lparr>uq_Name = ValueString (rm_Name old), uq_NewName = ValueString (rm_Name data)\<rparr>) of
         Inl err \<Rightarrow>
           Ret (client_error resp ''Unable to update tenant, got error: '' err) [] [] (Some data)
       | Inr marshalled \<Rightarrow>
      (case role_providerData r of None \<Rightarrow> Panic | Some pd \<Rightarrow>
      (case NewRequestWithContext w ''PATCH'' (endpoint pd @ ''/tenants'') (Some marshalled) of
         Inl err \<Rightarrow>
           Ret (client_error resp ''Unable to update tenant, got error: '' err) [] [] (Some data)
       | Inr request0 \<Rightarrow>
      (let request = SetBasicAuth request0 (username pd) (password pd) in
       case client pd of None \<Rightarrow> Panic | Some c \<Rightarrow>
      (case client_Do w request of
         Inl err \<Rightarrow>
           Ret (client_error resp ''Unable to update tenant, got error: '' err)
               [request] log_auth (Some data)
       | Inr res \<Rightarrow>
         if StatusCode res \<noteq> 200 then
           (case Body res of
              Inl err \<Rightarrow>
                Ret (client_error resp
                       ''Unable to handle non 200 status code on tenant update, got error: '' err)
                    [request] log_auth (Some data)
            | Inr resBody \<Rightarrow>
                Ret resp [request]
                    (log_auth @ [(Error, ''could not update tenant'', [(''body'', resBody)])])
                    (Some data))
         else
           (case Body res of
              Inl err \<Rightarrow>
                Ret (client_error resp ''Unable to update tenant, got error: '' err)
                    [request] log_auth (Some data)
            | Inr resBody \<Rightarrow>
           (case Unmarshal_updateResponse w resBody of
              Inl err \<Rightarrow>
                Ret (client_error resp ''Unable to update tenant, got error: '' err)
                    [request] log_auth (Some data)
            | Inr cr \<Rightarrow>
               (let data' = data\<lparr>rm_ID := StringValue (ur_ID cr)\<rparr> in
                Ret (State_Set (Set_RoleResourceModel w) resp data') [request]
                    (log_auth @ [(Trace, ''updated a tenant resource'', [])])
                    (Some data')))))))))))"

text \<open>
  \<open>Delete\<close> formats the URL from the endpoint and \<open>r.name\<close>, decodes a \<open>readResponse\<close>
  and assigns its id and name to the local descriptor.  \<open>RoleResource\<close> declares no field
  \<open>name\<close>, so the text of \<open>Delete\<close> does not say what \<open>r.name\<close> is; its value is the
  parameter \<open>r_name\<close> here, and what is proved of \<open>Delete\<close> is proved for every value it
  could have.
\<close>

definition RoleResource_Delete ::
  "world \<Rightarrow> RoleResource \<Rightarrow> string \<Rightarrow> RoleResourceModel tfsdk_Get \<Rightarrow> RoleResourceModel Resp
     \<Rightarrow> RoleResourceModel outcome" where
  "RoleResource_Delete w r r_name state resp0 =
    (let resp = Diags_Append resp0 (fst state) in
     if HasError (Diags resp) then Ret resp [] [] (snd state)
     else case role_providerData r of None \<Rightarrow> Panic | Some pd \<Rightarrow>
      (case NewRequestWithContext w ''DELETE'' (endpoint pd @ ''/tenants/'' @ r_name) None of
         Inl err \<Rightarrow>
           Ret (client_error resp ''Unable to read tenant, got error: '' err) [] [] (snd state)
       | Inr request0 \<Rightarrow>
      (let request = SetBasicAuth request0 (username pd) (password pd) in
       case client pd of None \<Rightarrow> Panic | Some c \<Rightarrow>
      (case client_Do w request of
         Inl err \<Rightarrow>
           Ret (client_error resp ''Unable to delete tenant, got error: '' err)
               [request] log_auth (snd state)
       | Inr res \<Rightarrow>
         if StatusCode res \<noteq> 200 then
           (case Body res of
              Inl err \<Rightarrow>
                Ret (client_error resp
                       ''Unable to handle non 200 status code on tenant deletion, got error: '' err)
                    [request] log_auth (snd state)
            | Inr resBody \<Rightarrow>
                Ret resp [request]
                    (log_auth @ [(Error, ''could not delete tenant'', [(''body'', resBody)])])
                    (snd state))
         else
           (case Body res of
              Inl err \<Rightarrow>
                Ret (client_error resp ''Unable to delete tenant, got error: '' err)
                    [request] log_auth (snd state)
            | Inr resBody \<Rightarrow>
           (case Unmarshal_readResponse w resBody of
              Inl err \<Rightarrow>
                Ret (client_error resp ''Unable to delete tenant, got error: '' err)
                    [request] log_auth (snd state)
            | Inr newTenant \<Rightarrow>
           (case snd state of None \<Rightarrow> Panic | Some data \<Rightarrow>
                Ret resp [request] log_auth
                    (Some (data\<lparr>rm_ID := StringValue (rr_ID newTenant),
                                rm_Name := StringValue (rr_Name newTenant)\<rparr>)))))))))"

section \<open>The Tenant data source\<close>

text \<open>
  The data source copies the provider data into fields of its own.  Its \<open>data\<close> is a
  struct, not a pointer, so \<open>Config.Get\<close> always leaves a value.
\<close>

record TenantDataSource =
  ds_client :: "http_client option"
  ds_endpoint :: string
  ds_username :: string
  ds_password :: string

definition TenantDataSource_Read ::
  "world \<Rightarrow> TenantDataSource \<Rightarrow> Diagnostics \<times> TenantDataSourceModel
     \<Rightarrow> TenantDataSourceModel Resp \<Rightarrow> TenantDataSourceModel outcome" where
  "TenantDataSource_Read w d config resp0 =
    (let resp = Diags_Append resp0 (fst config); data = snd config in
     if HasError (Diags resp) then Ret resp [] [] (Some data)
     else
      (case NewRequestWithContext w ''GET''
              (ds_endpoint d @ ''/tenants/'' @ ValueString (dm_Name data)) None of
         Inl err \<Rightarrow>
           Ret (client_error resp ''Unable to read tenant, got error: '' err) [] [] (Some data)
       | Inr request0 \<Rightarrow>
      (let request = SetBasicAuth request0 (ds_username d) (ds_password d) in
       case ds_client d of None \<Rightarrow> Panic | Some c \<Rightarrow>
      (case client_Do w request of
         Inl err \<Rightarrow>
           Ret (client_error resp ''Unable to read tenant, got error: '' err)
               [request] log_auth (Some data)
       | Inr res \<Rightarrow>
         if StatusCode res \<noteq> 200 then
           (case Body res of
              Inl err \<Rightarrow>
                Ret (client_error resp
                       ''Unable to handle non 200 status code on tenant read, got error: '' err)
                    [request] log_auth (Some data)
            | Inr resBody \<Rightarrow>
                Ret resp [request]
                    (log_auth @ [(Error, ''could not read tenant'', [(''body'', resBody)])])
                    (Some data))
         else
           (case Body res of
              Inl err \<Rightarrow>
                Ret (client_error resp ''Unable to read tenant, got error: '' err)
                    [request] log_auth (Some data)
            | Inr resBody \<Rightarrow>
           (case Unmarshal_tenantDataReadResponse w resBody of
              Inl err \<Rightarrow>
                Ret (client_error resp ''Unable to read tenant, got error: '' err)
                    [request] log_auth (Some data)
            | Inr newTenant \<Rightarrow>
               (let data' = data\<lparr>dm_ID := StringValue (dr_ID newTenant)\<rparr> in
                Ret (State_Set (Set_TenantDataSourceModel w) resp data') [request]
                    (log_auth @ [(Trace, ''read a data source'', [])])
                    (Some data'))))))))"

section \<open>Construction, configuration and registration\<close>

text \<open>
  The constructors return zero-valued receivers.  \<open>Configure\<close> is handed the provider
  data as a value of any type: nil, a \<open>*ProviderData\<close>, or something else (named by its
  type); it returns at once on nil, reports the unexpected type, and stores the data
  otherwise.
\<close>

datatype any_data = NilData | IsProviderData ProviderData | OtherData string

datatype resource_impl = IsTenantResource TenantResource | IsRoleResource RoleResource

definition NewTenantResource :: "unit \<Rightarrow> resource_impl" where
  "NewTenantResource u = IsTenantResource \<lparr>tenant_providerData = None, tenant_name = []\<rparr>"

definition NewRoleResource :: "unit \<Rightarrow> resource_impl" where
  "NewRoleResource u = IsRoleResource \<lparr>role_providerData = None\<rparr>"

definition NewTenantDataSource :: "unit \<Rightarrow> TenantDataSource" where
  "NewTenantDataSource u =
     \<lparr>ds_client = None, ds_endpoint = [], ds_username = [], ds_password = []\<rparr>"

definition TenantResource_Configure ::
  "TenantResource \<Rightarrow> any_data \<Rightarrow> Diagnostics \<Rightarrow> TenantResource \<times> Diagnostics" where
  "TenantResource_Configure r pdata diags =
     (case pdata of
        NilData \<Rightarrow> (r, diags)
      | OtherData ty \<Rightarrow>
          (r, AddError ''Unexpected Resource Configure Type''
                (''Expected *ProviderData, got: '' @ ty
                   @ ''. Please report this issue to the provider developers.'') diags)
      | IsProviderData pd \<Rightarrow> (r\<lparr>tenant_providerData := Some pd\<rparr>, diags))"

definition RoleResource_Configure ::
  "RoleResource \<Rightarrow> any_data \<Rightarrow> Diagnostics \<Rightarrow> RoleResource \<times> Diagnostics" where
  "RoleResource_Configure r pdata diags =
     (case pdata of
        NilData \<Rightarrow> (r, diags)
      | OtherData ty \<Rightarrow>
          (r, AddError ''Unexpected Resource Configure Type''
                (''Expected *ProviderData, got: '' @ ty
                   @ ''. Please report this issue to the provider developers.'') diags)
      | IsProviderData pd \<Rightarrow> (r\<lparr>role_providerData := Some pd\<rparr>, diags))"

definition TenantDataSource_Configure ::
  "TenantDataSource \<Rightarrow> any_data \<Rightarrow> Diagnostics \<Rightarrow> TenantDataSource \<times> Diagnostics" where
  "TenantDataSource_Configure d pdata diags =
     (case pdata of
        NilData \<Rightarrow> (d, diags)
      | OtherData ty \<Rightarrow>
          (d, AddError ''Unexpected ProviderData Source Configure Type''
                (''Expected *http.Client, got: '' @ ty
                   @ ''. Please report this issue to the provider developers.'') diags)
      | IsProviderData pd \<Rightarrow>
          (\<lparr>ds_client = client pd, ds_endpoint = endpoint pd, ds_username = username pd,
            ds_password = password pd\<rparr>, diags))"

text \<open>
  The provider's \<open>Configure\<close> reads the configuration and, unless that reported an error,
  hands the same endpoint and credentials to data sources and to resources.
\<close>

record ConfigureResponse =
  cfg_Diags :: Diagnostics
  DataSourceData :: any_data
  ResourceData :: any_data

definition AuthProxy_Configure ::
  "AuthProxy \<Rightarrow> Diagnostics \<times> Model \<Rightarrow> ConfigureResponse \<Rightarrow> ConfigureResponse" where
  "AuthProxy_Configure p config resp0 =
     (let resp = resp0\<lparr>cfg_Diags := Append (cfg_Diags resp0) (fst config)\<rparr>; data = snd config in
      if HasError (cfg_Diags resp) then resp
      else
        resp\<lparr>DataSourceData := IsProviderData
                 \<lparr>client = Some DefaultClient, endpoint = ValueString (md_Endpoint data),
                  username = ValueString (md_Username data),
                  password = ValueString (md_Password data)\<rparr>,
              ResourceData := IsProviderData
                 \<lparr>client = Some DefaultClient, endpoint = ValueString (md_Endpoint data),
                  username = ValueString (md_Username data),
                  password = ValueString (md_Password data)\<rparr>\<rparr>)"

definition AuthProxy_Resources :: "AuthProxy \<Rightarrow> (unit \<Rightarrow> resource_impl) list" where
  "AuthProxy_Resources p = [NewTenantResource]"

definition AuthProxy_DataSources :: "AuthProxy \<Rightarrow> (unit \<Rightarrow> TenantDataSource) list" where
  "AuthProxy_DataSources p = [NewTenantDataSource]"

text \<open>\<open>Metadata\<close>: the type name reported for a given provider type name.\<close>

definition TenantResource_Metadata :: "TenantResource \<Rightarrow> string \<Rightarrow> string" where
  "TenantResource_Metadata r ProviderTypeName = ProviderTypeName @ ''_tenant''"

definition RoleResource_Metadata :: "RoleResource \<Rightarrow> string \<Rightarrow> string" where
  "RoleResource_Metadata r ProviderTypeName = ProviderTypeName @ ''_tenant''"

definition TenantDataSource_Metadata :: "TenantDataSource \<Rightarrow> string \<Rightarrow> string" where
  "TenantDataSource_Metadata d ProviderTypeName = ProviderTypeName @ ''_tenant''"

definition AuthProxy_Metadata :: "AuthProxy \<Rightarrow> string \<times> string" where
  "AuthProxy_Metadata p = (''authproxy'', version p)"

section \<open>Outcomes of an exchange\<close>

text \<open>
  The vocabulary in which the properties below are stated.  One exchange is: encode the
  payload (when there is one), build the request, authenticate it, hand it to the client,
  look at the status, read the body, decode it.  Its outcome is one of the four failure
  kinds of the design or the decoded value.  A body that cannot be read after status 200
  counts as a transport failure; after any other status the exchange is rejected, and the
  result of reading the body comes with the rejection.
\<close>

datatype 'r exchange =
    RequestBuildError error
  | TransportError error
  | RemoteRejected int "error + string"
  | DecodeError error
  | Success 'r

definition execute ::
  "world \<Rightarrow> string \<Rightarrow> string \<Rightarrow> json_object option \<Rightarrow> string \<Rightarrow> string
     \<Rightarrow> (string \<Rightarrow> error + 'r) \<Rightarrow> 'r exchange" where
  "execute w m u payload usr pwd decode =
     (case (case payload of
              None \<Rightarrow> Inr None
            | Some obj \<Rightarrow> (case json_Marshal w obj of Inl e \<Rightarrow> Inl e | Inr b \<Rightarrow> Inr (Some b))) of
        Inl e \<Rightarrow> RequestBuildError e
      | Inr body \<Rightarrow>
     (case NewRequestWithContext w m u body of
        Inl e \<Rightarrow> RequestBuildError e
      | Inr request \<Rightarrow>
     (case client_Do w (SetBasicAuth request usr pwd) of
        Inl e \<Rightarrow> TransportError e
      | Inr res \<Rightarrow>
          if StatusCode res \<noteq> 200 then RemoteRejected (StatusCode res) (Body res)
          else (case Body res of
                  Inl e \<Rightarrow> TransportError e
                | Inr b \<Rightarrow> (case decode b of Inl e \<Rightarrow> DecodeError e | Inr v \<Rightarrow> Success v)))))"

fun is_Success :: "'r exchange \<Rightarrow> bool" where
  "is_Success (Success v) = True"
| "is_Success (RequestBuildError e) = False"
| "is_Success (TransportError e) = False"
| "is_Success (RemoteRejected s b) = False"
| "is_Success (DecodeError e) = False"

text \<open>The exchange of each operation: method, URL, payload, credentials and decoder.\<close>

definition TenantCreate_exchange ::
  "world \<Rightarrow> ProviderData \<Rightarrow> TenantResourceModel \<Rightarrow> createResponse exchange" where
  "TenantCreate_exchange w pd data =
     execute w ''POST'' (endpoint pd @ ''/tenants'')
       (Some (createRequest_json \<lparr>cq_Name = ValueString (tm_Name data)\<rparr>))
       (username pd) (password pd) (Unmarshal_createResponse w)"

definition TenantRead_exchange ::
  "world \<Rightarrow> ProviderData \<Rightarrow> TenantResourceModel \<Rightarrow> readResponse exchange" where
  "TenantRead_exchange w pd data =
     execute w ''GET'' (endpoint pd @ ''/tenants/'' @ ValueString (tm_Name data)) None
       (username pd) (password pd) (Unmarshal_readResponse w)"

definition TenantUpdate_exchange ::
  "world \<Rightarrow> ProviderData \<Rightarrow> TenantResourceModel \<Rightarrow> TenantResourceModel
     \<Rightarrow> updateResponse exchange" where
  "TenantUpdate_exchange w pd old data =
     execute w ''PATCH'' (endpoint pd @ ''/tenants'')
       (Some (updateRequest_json
          \<lparr>uq_Name = ValueString (tm_Name old), uq_NewName = ValueString (tm_Name data)\<rparr>))
       (username pd) (password pd) (Unmarshal_updateResponse w)"

definition TenantDelete_exchange ::
  "world \<Rightarrow> ProviderData \<Rightarrow> TenantResource \<Rightarrow> readResponse exchange" where
  "TenantDelete_exchange w pd r =
     execute w ''DELETE'' (endpoint pd @ ''/tenants/'' @ tenant_name r) None
       (username pd) (password pd) (Unmarshal_readResponse w)"

definition RoleCreate_exchange ::
  "world \<Rightarrow> ProviderData \<Rightarrow> RoleResourceModel \<Rightarrow> createRoleResponse exchange" where
  "RoleCreate_exchange w pd data =
     execute w ''POST'' (endpoint pd @ ''/roles'')
       (Some (createRoleRequest_json
          \<lparr>crq_Name = ValueString (rm_Name data), crq_Tenant = ValueString (rm_Tenant data),
           crq_Scopes = snd (ElementsAs (rm_Scopes data))\<rparr>))
       (username pd) (password pd) (Unmarshal_createRoleResponse w)"

definition RoleRead_exchange ::
  "world \<Rightarrow> ProviderData \<Rightarrow> RoleResourceModel \<Rightarrow> readRoleResponse exchange" where
  "RoleRead_exchange w pd data =
     execute w ''GET''
       (endpoint pd @ ''/tenants/'' @ ValueString (rm_Tenant data)
          @ ''/roles/'' @ ValueString (rm_Name data)) None
       (username pd) (password pd) (Unmarshal_readRoleResponse w)"

definition RoleUpdate_exchange ::
  "world \<Rightarrow> ProviderData \<Rightarrow> RoleResourceModel \<Rightarrow> RoleResourceModel
     \<Rightarrow> updateResponse exchange" where
  "RoleUpdate_exchange w pd old data =
     execute w ''PATCH'' (endpoint pd @ ''/tenants'')
       (Some (updateRequest_json
          \<lparr>uq_Name = ValueString (rm_Name old), uq_NewName = ValueString (rm_Name data)\<rparr>))
       (username pd) (password pd) (Unmarshal_updateResponse w)"

definition RoleDelete_exchange ::
  "world \<Rightarrow> ProviderData \<Rightarrow> string \<Rightarrow> readResponse exchange" where
  "RoleDelete_exchange w pd r_name =
     execute w ''DELETE'' (endpoint pd @ ''/tenants/'' @ r_name) None
       (username pd) (password pd) (Unmarshal_readResponse w)"

definition DataRead_exchange ::
  "world \<Rightarrow> TenantDataSource \<Rightarrow> TenantDataSourceModel \<Rightarrow> tenantDataReadResponse exchange" where
  "DataRead_exchange w d data =
     execute w ''GET'' (ds_endpoint d @ ''/tenants/'' @ ValueString (dm_Name data)) None
       (ds_username d) (ds_password d) (Unmarshal_tenantDataReadResponse w)"

section \<open>A test double\<close>

text \<open>
  A world for running the operations on concrete inputs: the encoder writes
  \<open>key=value;\<close> pairs, every URL is accepted, \<open>State.Set\<close> never complains, the
  decoders take the whole body as the id (and refuse an empty body), and the server is a
  parameter.  The role decoder reports a name, tenant and scopes of its own, different
  from anything a test stores.
\<close>

fun stub_field :: "string \<times> json_value \<Rightarrow> string" where
  "stub_field (k, JString v) = k @ ''='' @ v @ '';''"
| "stub_field (k, JStrings None) = k @ ''=null;''"
| "stub_field (k, JStrings (Some vs)) = k @ ''=['' @ concat (map (\<lambda>v. v @ '','') vs) @ ''];''"

definition stub_world :: "(Request \<Rightarrow> error + Response) \<Rightarrow> world" where
  "stub_world server =
     \<lparr>json_Marshal = (\<lambda>obj. Inr (concat (map stub_field obj))),
      NewRequest_err = (\<lambda>m u. None),
      client_Do = server,
      Unmarshal_createResponse =
        (\<lambda>b. if b = [] then Inl ''unexpected end of JSON input'' else Inr \<lparr>cr_ID = b\<rparr>),
      Unmarshal_updateResponse =
        (\<lambda>b. if b = [] then Inl ''unexpected end of JSON input'' else Inr \<lparr>ur_ID = b\<rparr>),
      Unmarshal_readResponse =
        (\<lambda>b. if b = [] then Inl ''unexpected end of JSON input''
             else Inr \<lparr>rr_ID = b, rr_Name = ''remote-name''\<rparr>),
      Unmarshal_createRoleResponse =
        (\<lambda>b. if b = [] then Inl ''unexpected end of JSON input'' else Inr \<lparr>crr_ID = b\<rparr>),
      Unmarshal_readRoleResponse =
        (\<lambda>b. if b = [] then Inl ''unexpected end of JSON input''
             else Inr \<lparr>rrr_ID = b, rrr_Name = ''remote-name'', rrr_Tenant = ''remote-tenant'',
                      rrr_Scopes = Some [''remote-scope'']\<rparr>),
      Unmarshal_tenantDataReadResponse =
        (\<lambda>b. if b = [] then Inl ''unexpected end of JSON input''
             else Inr \<lparr>dr_ID = b, dr_Name = ''remote-name''\<rparr>),
      GoSyntax_ProviderData = (\<lambda>pd. ''&provider.ProviderData{}''),
      Set_TenantResourceModel = (\<lambda>v. []),
      Set_RoleResourceModel = (\<lambda>v. []),
      Set_TenantDataSourceModel = (\<lambda>v. [])\<rparr>"

definition answer :: "int \<Rightarrow> string \<Rightarrow> Request \<Rightarrow> error + Response" where
  "answer code b request = Inr \<lparr>StatusCode = code, Body = Inr b\<rparr>"

definition stub_pd :: ProviderData where
  "stub_pd = \<lparr>client = Some DefaultClient, endpoint = ''https://auth.test'',
              username = ''admin'', password = ''secret''\<rparr>"

definition empty_resp :: "'m Resp" where
  "empty_resp = \<lparr>Diags = [], State = None\<rparr>"

definition stub_tenant :: TenantResource where
  "stub_tenant = \<lparr>tenant_providerData = Some stub_pd, tenant_name = []\<rparr>"

definition stub_role :: RoleResource where
  "stub_role = \<lparr>role_providerData = Some stub_pd\<rparr>"

definition stub_source :: TenantDataSource where
  "stub_source = \<lparr>ds_client = Some DefaultClient, ds_endpoint = ''https://auth.test'',
                  ds_username = ''admin'', ds_password = ''secret''\<rparr>"

definition lidl :: "tf_string \<Rightarrow> TenantResourceModel" where
  "lidl i = \<lparr>tm_Name = StringValue ''lidl'', tm_ID = i\<rparr>"

definition reader :: "tf_string \<Rightarrow> RoleResourceModel" where
  "reader i = \<lparr>rm_ID = i, rm_Name = StringValue ''reader'', rm_Tenant = StringValue ''acme'',
              rm_Scopes = ListValue [StringValue ''read'', StringValue ''write'']\<rparr>"

definition writer :: "tf_string \<Rightarrow> RoleResourceModel" where
  "writer i = \<lparr>rm_ID = i, rm_Name = StringValue ''writer'', rm_Tenant = StringValue ''globex'',
              rm_Scopes = ListValue [StringValue ''write'']\<rparr>"

section \<open>Basic facts\<close>

lemma HasError_AddError [simp]: "HasError (AddError s d diags)"
  by (auto simp: AddError_def HasError_def NewErrorDiagnostic_def list_ex_iff
      intro: bexI[where x="\<lparr>severity = SeverityError, summary = s, detail = d\<rparr>"])

lemma HasError_Append_iff: "HasError (Append diags ds) \<longleftrightarrow> HasError diags \<or> HasError ds"
  by (induction ds arbitrary: diags) (auto simp: HasError_def list_ex_iff)

text \<open>The conversions between a list and a slice undo each other.\<close>

lemma elems_as_strings_inverse: "elems_as_strings xs = Inr ss \<Longrightarrow> map StringValue ss = xs"
proof (induction xs arbitrary: ss)
  case Nil
  then show ?case by simp
next
  case (Cons x xs)
  then show ?case by (cases x) (auto split: sum.splits)
qed

lemma elems_as_strings_known: "elems_as_strings (map StringValue s) = Inr s"
  by (induction s) auto

lemma ListValueFrom_ElementsAs:
  "ElementsAs l = (dsE, scopes) \<Longrightarrow> \<not> HasError dsE \<Longrightarrow> ListValueFrom scopes = (l, [])"
  by (cases l)
     (auto simp: HasError_def NewErrorDiagnostic_def elems_as_strings_inverse split: sum.splits)

lemmas op_defs =
  TenantResource_Create_def TenantResource_Read_def TenantResource_Update_def
  TenantResource_Delete_def RoleResource_Create_def RoleResource_Read_def
  RoleResource_Update_def RoleResource_Delete_def TenantDataSource_Read_def

lemmas exchange_defs =
  TenantCreate_exchange_def TenantRead_exchange_def TenantUpdate_exchange_def
  TenantDelete_exchange_def RoleCreate_exchange_def RoleRead_exchange_def
  RoleUpdate_exchange_def RoleDelete_exchange_def DataRead_exchange_def

lemmas step_defs =
  execute_def Let_def Diags_Append_def Diags_AddError_def NewRequestWithContext_def State_Set_def

lemmas stub_defs =
  stub_world_def answer_def stub_pd_def stub_tenant_def stub_role_def stub_source_def
  empty_resp_def lidl_def reader_def writer_def SetBasicAuth_def AddError_def NewErrorDiagnostic_def
  HasError_def createRequest_json_def updateRequest_json_def createRoleRequest_json_def

text \<open>What the outcomes of \<open>execute\<close> say about the world.\<close>

lemma execute_Success_iff:
  "execute w m u payload usr pwd decode = Success v \<longleftrightarrow>
     (\<exists>body request res b.
        (case payload of None \<Rightarrow> body = None
         | Some obj \<Rightarrow> (\<exists>bytes. json_Marshal w obj = Inr bytes \<and> body = Some bytes)) \<and>
        NewRequestWithContext w m u body = Inr request \<and>
        client_Do w (SetBasicAuth request usr pwd) = Inr res \<and>
        StatusCode res = 200 \<and> Body res = Inr b \<and> decode b = Inr v)"
  by (auto simp: execute_def split: option.splits sum.splits)

lemma execute_RemoteRejected_iff:
  "execute w m u payload usr pwd decode = RemoteRejected code rb \<longleftrightarrow>
     (\<exists>body request res.
        (case payload of None \<Rightarrow> body = None
         | Some obj \<Rightarrow> (\<exists>bytes. json_Marshal w obj = Inr bytes \<and> body = Some bytes)) \<and>
        NewRequestWithContext w m u body = Inr request \<and>
        client_Do w (SetBasicAuth request usr pwd) = Inr res \<and>
        StatusCode res = code \<and> code \<noteq> 200 \<and> Body res = rb)"
  by (auto simp: execute_def split: option.splits sum.splits)

section \<open>Failure leaves the descriptor alone\<close>

text \<open>
  Whenever the exchange of an operation is not a success, the operation returns with the
  stored state and the local descriptor exactly as they were.
\<close>

lemma TenantResource_Create_frame:
  "tenant_providerData r = Some pd \<Longrightarrow>
   TenantResource_Create w r (ds, Some data) resp0 = Returned run \<Longrightarrow>
   \<not> is_Success (TenantCreate_exchange w pd data) \<Longrightarrow>
   State (response run) = State resp0 \<and> local_data run = Some data"
  by (auto simp: op_defs exchange_defs step_defs split: if_splits option.splits sum.splits)

lemma TenantResource_Read_frame:
  "tenant_providerData r = Some pd \<Longrightarrow>
   TenantResource_Read w r (ds, Some data) resp0 = Returned run \<Longrightarrow>
   \<not> is_Success (TenantRead_exchange w pd data) \<Longrightarrow>
   State (response run) = State resp0 \<and> local_data run = Some data"
  by (auto simp: op_defs exchange_defs step_defs split: if_splits option.splits sum.splits)

lemma TenantResource_Update_frame:
  "tenant_providerData r = Some pd \<Longrightarrow>
   TenantResource_Update w r (ds1, Some old) (ds2, Some data) resp0 = Returned run \<Longrightarrow>
   \<not> is_Success (TenantUpdate_exchange w pd old data) \<Longrightarrow>
   State (response run) = State resp0 \<and> local_data run = Some data"
  by (auto simp: op_defs exchange_defs step_defs split: if_splits option.splits sum.splits)

lemma TenantResource_Delete_frame:
  "tenant_providerData r = Some pd \<Longrightarrow>
   TenantResource_Delete w r (ds, data) resp0 = Returned run \<Longrightarrow>
   \<not> is_Success (TenantDelete_exchange w pd r) \<Longrightarrow>
   State (response run) = State resp0 \<and> local_data run = data"
  by (auto simp: op_defs exchange_defs step_defs split: if_splits option.splits sum.splits)

lemma RoleResource_Create_frame:
  "role_providerData r = Some pd \<Longrightarrow>
   RoleResource_Create w r (ds, Some data) resp0 = Returned run \<Longrightarrow>
   \<not> is_Success (RoleCreate_exchange w pd data) \<Longrightarrow>
   State (response run) = State resp0 \<and> local_data run = Some data"
  by (auto simp: op_defs exchange_defs step_defs
      split: if_splits option.splits sum.splits prod.splits)

lemma RoleResource_Read_frame:
  "role_providerData r = Some pd \<Longrightarrow>
   RoleResource_Read w r (ds, Some data) resp0 = Returned run \<Longrightarrow>
   \<not> is_Success (RoleRead_exchange w pd data) \<Longrightarrow>
   State (response run) = State resp0 \<and> local_data run = Some data"
  by (auto simp: op_defs exchange_defs step_defs
      split: if_splits option.splits sum.splits prod.splits)

lemma RoleResource_Update_frame:
  "role_providerData r = Some pd \<Longrightarrow>
   RoleResource_Update w r (ds1, Some old) (ds2, Some data) resp0 = Returned run \<Longrightarrow>
   \<not> is_Success (RoleUpdate_exchange w pd old data) \<Longrightarrow>
   State (response run) = State resp0 \<and> local_data run = Some data"
  by (auto simp: op_defs exchange_defs step_defs split: if_splits option.splits sum.splits)

lemma RoleResource_Delete_frame:
  "role_providerData r = Some pd \<Longrightarrow>
   RoleResource_Delete w r r_name (ds, data) resp0 = Returned run \<Longrightarrow>
   \<not> is_Success (RoleDelete_exchange w pd r_name) \<Longrightarrow>
   State (response run) = State resp0 \<and> local_data run = data"
  by (auto simp: op_defs exchange_defs step_defs split: if_splits option.splits sum.splits)

lemma TenantDataSource_Read_frame:
  "TenantDataSource_Read w d (ds, data) resp0 = Returned run \<Longrightarrow>
   \<not> is_Success (DataRead_exchange w d data) \<Longrightarrow>
   State (response run) = State resp0 \<and> local_data run = Some data"
  by (auto simp: op_defs exchange_defs step_defs split: if_splits option.splits sum.splits)

text \<open>
  Claim C4.  For each of the nine operations: if the operation returns and its exchange
  ended in a request-build error, a transport error, a status other than 200 or a decode
  error (that is, in anything but a success), then the state held by the response is the
  state it held before the call, and the local descriptor is the one read from the plan,
  state or configuration, id included.  In particular a failing Read leaves the whole
  stored descriptor unchanged and keeps a known id.
\<close>

theorem failing_outcome_leaves_id_unchanged:
  "(\<forall>w r pd ds data resp0 run.
      tenant_providerData r = Some pd \<longrightarrow>
      TenantResource_Create w r (ds, Some data) resp0 = Returned run \<longrightarrow>
      \<not> is_Success (TenantCreate_exchange w pd data) \<longrightarrow>
      State (response run) = State resp0 \<and> local_data run = Some data) \<and>
   (\<forall>w r pd ds data resp0 run.
      tenant_providerData r = Some pd \<longrightarrow>
      TenantResource_Read w r (ds, Some data) resp0 = Returned run \<longrightarrow>
      \<not> is_Success (TenantRead_exchange w pd data) \<longrightarrow>
      State (response run) = State resp0 \<and> local_data run = Some data) \<and>
   (\<forall>w r pd ds1 old ds2 data resp0 run.
      tenant_providerData r = Some pd \<longrightarrow>
      TenantResource_Update w r (ds1, Some old) (ds2, Some data) resp0 = Returned run \<longrightarrow>
      \<not> is_Success (TenantUpdate_exchange w pd old data) \<longrightarrow>
      State (response run) = State resp0 \<and> local_data run = Some data) \<and>
   (\<forall>w r pd ds data resp0 run.
      tenant_providerData r = Some pd \<longrightarrow>
      TenantResource_Delete w r (ds, data) resp0 = Returned run \<longrightarrow>
      \<not> is_Success (TenantDelete_exchange w pd r) \<longrightarrow>
      State (response run) = State resp0 \<and> local_data run = data) \<and>
   (\<forall>w r pd ds data resp0 run.
      role_providerData r = Some pd \<longrightarrow>
      RoleResource_Create w r (ds, Some data) resp0 = Returned run \<longrightarrow>
      \<not> is_Success (RoleCreate_exchange w pd data) \<longrightarrow>
      State (response run) = State resp0 \<and> local_data run = Some data) \<and>
   (\<forall>w r pd ds data resp0 run.
      role_providerData r = Some pd \<longrightarrow>
      RoleResource_Read w r (ds, Some data) resp0 = Returned run \<longrightarrow>
      \<not> is_Success (RoleRead_exchange w pd data) \<longrightarrow>
      State (response run) = State resp0 \<and> local_data run = Some data) \<and>
   (\<forall>w r pd ds1 old ds2 data resp0 run.
      role_providerData r = Some pd \<longrightarrow>
      RoleResource_Update w r (ds1, Some old) (ds2, Some data) resp0 = Returned run \<longrightarrow>
      \<not> is_Success (RoleUpdate_exchange w pd old data) \<longrightarrow>
      State (response run) = State resp0 \<and> local_data run = Some data) \<and>
   (\<forall>w r r_name pd ds data resp0 run.
      role_providerData r = Some pd \<longrightarrow>
      RoleResource_Delete w r r_name (ds, data) resp0 = Returned run \<longrightarrow>
      \<not> is_Success (RoleDelete_exchange w pd r_name) \<longrightarrow>
      State (response run) = State resp0 \<and> local_data run = data) \<and>
   (\<forall>w d ds data resp0 run.
      TenantDataSource_Read w d (ds, data) resp0 = Returned run \<longrightarrow>
      \<not> is_Success (DataRead_exchange w d data) \<longrightarrow>
      State (response run) = State resp0 \<and> local_data run = Some data)"
  by (intro conjI; intro allI impI;
      ((rule TenantResource_Create_frame; assumption)
       | (rule TenantResource_Read_frame; assumption)
       | (rule TenantResource_Update_frame; assumption)
       | (rule TenantResource_Delete_frame; assumption)
       | (rule RoleResource_Create_frame; assumption)
       | (rule RoleResource_Read_frame; assumption)
       | (rule RoleResource_Update_frame; assumption)
       | (rule RoleResource_Delete_frame; assumption)
       | (rule TenantDataSource_Read_frame; assumption)))

text \<open>
  A Read of a tenant whose id is known, answered with status 503: the stored descriptor
  still carries the id.
\<close>

theorem failing_outcome_leaves_id_unchanged_witness:
  "tenant_providerData stub_tenant = Some stub_pd \<and>
   (\<exists>run. TenantResource_Read (stub_world (answer 503 ''unavailable'')) stub_tenant
             ([], Some (lidl (StringValue ''t-1'')))
             \<lparr>Diags = [], State = Some (lidl (StringValue ''t-1''))\<rparr> = Returned run \<and>
          \<not> is_Success (TenantRead_exchange (stub_world (answer 503 ''unavailable'')) stub_pd
                          (lidl (StringValue ''t-1''))) \<and>
          State (response run) = Some (lidl (StringValue ''t-1'')) \<and>
          local_data run = Some (lidl (StringValue ''t-1'')))"
proof -
  let ?w = "stub_world (answer 503 ''unavailable'')"
  let ?d = "lidl (StringValue ''t-1'')"
  let ?resp = "\<lparr>Diags = [], State = Some ?d\<rparr>"
  have pd: "tenant_providerData stub_tenant = Some stub_pd"
    by (simp add: stub_tenant_def)
  obtain run where run: "TenantResource_Read ?w stub_tenant ([], Some ?d) ?resp = Returned run"
    by (simp add: TenantResource_Read_def step_defs stub_defs)
  have fails: "\<not> is_Success (TenantRead_exchange ?w stub_pd ?d)"
    by (simp add: TenantRead_exchange_def step_defs stub_defs)
  have "State (response run) = State ?resp \<and> local_data run = Some ?d"
    by (rule failing_outcome_leaves_id_unchanged
          [THEN conjunct2, THEN conjunct1, rule_format, OF pd run fails])
  with pd run fails show ?thesis by auto
qed

section \<open>Tenant Create\<close>

text \<open>
  What Tenant Create does with a desired name \<open>n\<close>: it hands one request to the client,
  a POST to \<open>endpoint/tenants\<close> whose body is the encoding of \<open>{tenant: n}\<close>; after status
  200, a body that decodes to an id and an accepted descriptor it saves that id under the
  name \<open>n\<close>; after any other status it leaves state and descriptor as they were.
\<close>
lemma TenantResource_Create_sends_and_saves:
  assumes pd: "tenant_providerData r = Some pd" and c: "client pd = Some c"
    and name: "tm_Name data = StringValue n"
    and diags: "\<not> HasError (Diags resp0)" "\<not> HasError ds"
    and body: "json_Marshal w [(''tenant'', JString n)] = Inr body"
    and url: "NewRequest_err w ''POST'' (endpoint pd @ ''/tenants'') = None"
    and request: "request = \<lparr>req_method = ''POST'', req_url = endpoint pd @ ''/tenants'',
                    req_body = Some body, req_basic_auth = Some (username pd, password pd)\<rparr>"
    and res: "client_Do w request = Inr res"
  shows "\<exists>run. TenantResource_Create w r (ds, Some data) resp0 = Returned run \<and>
           sent run = [request] \<and>
           (StatusCode res = 200 \<longrightarrow>
              (\<forall>b cr. Body res = Inr b \<longrightarrow> Unmarshal_createResponse w b = Inr cr \<longrightarrow>
                 \<not> HasError (Set_TenantResourceModel w
                               \<lparr>tm_Name = StringValue n, tm_ID = StringValue (cr_ID cr)\<rparr>) \<longrightarrow>
                 State (response run) =
                   Some \<lparr>tm_Name = StringValue n, tm_ID = StringValue (cr_ID cr)\<rparr>)) \<and>
           (StatusCode res \<noteq> 200 \<longrightarrow>
              State (response run) = State resp0 \<and> local_data run = Some data)"
  using assms
  by (cases data)
     (auto simp: TenantResource_Create_def step_defs HasError_Append_iff createRequest_json_def
        SetBasicAuth_def split: sum.splits)

text \<open>
  Claim C5 asks, besides the above, that on a status other than 200 the operation return
  failure.  An operation reports failure through an error diagnostic and in no other way.
  Under the conditions of the lemma above, when the status is not 200 and the body can be
  read, Tenant Create returns a response whose diagnostics are the incoming ones: no error
  is among them, and the call ends like one that had nothing to report.  This is the
  rejected exchange that every operation drops (claim C1).
\<close>

theorem tenant_create_non_200_reports_no_failure:
  assumes pd: "tenant_providerData r = Some pd" and c: "client pd = Some c"
    and name: "tm_Name data = StringValue n"
    and diags: "\<not> HasError (Diags resp0)" "\<not> HasError ds"
    and body: "json_Marshal w [(''tenant'', JString n)] = Inr body"
    and url: "NewRequest_err w ''POST'' (endpoint pd @ ''/tenants'') = None"
    and request: "request = \<lparr>req_method = ''POST'', req_url = endpoint pd @ ''/tenants'',
                    req_body = Some body, req_basic_auth = Some (username pd, password pd)\<rparr>"
    and res: "client_Do w request = Inr res"
    and status: "StatusCode res \<noteq> 200"
    and readable: "Body res = Inr b"
  shows "\<exists>run. TenantResource_Create w r (ds, Some data) resp0 = Returned run \<and>
           sent run = [request] \<and>
           \<not> HasError (Diags (response run)) \<and>
           Diags (response run) = Append (Diags resp0) ds \<and>
           State (response run) = State resp0 \<and> local_data run = Some data"
  using assms
  by (auto simp: TenantResource_Create_def step_defs HasError_Append_iff createRequest_json_def
        SetBasicAuth_def)

text \<open>Creating the tenant \<open>lidl\<close>, the server answering 409: the diagnostics stay empty.\<close>

theorem tenant_create_non_200_reports_no_failure_witness:
  "tenant_providerData stub_tenant = Some stub_pd \<and> client stub_pd = Some DefaultClient \<and>
   tm_Name (lidl StringUnknown) = StringValue ''lidl'' \<and>
   \<not> HasError (Diags (empty_resp :: TenantResourceModel Resp)) \<and> \<not> HasError [] \<and>
   json_Marshal (stub_world (answer 409 ''tenant exists'')) [(''tenant'', JString ''lidl'')]
     = Inr ''tenant=lidl;'' \<and>
   NewRequest_err (stub_world (answer 409 ''tenant exists'')) ''POST''
     (endpoint stub_pd @ ''/tenants'') = None \<and>
   client_Do (stub_world (answer 409 ''tenant exists''))
     \<lparr>req_method = ''POST'', req_url = endpoint stub_pd @ ''/tenants'',
      req_body = Some ''tenant=lidl;'',
      req_basic_auth = Some (username stub_pd, password stub_pd)\<rparr>
     = Inr \<lparr>StatusCode = 409, Body = Inr ''tenant exists''\<rparr> \<and>
   StatusCode \<lparr>StatusCode = 409, Body = Inr ''tenant exists''\<rparr> \<noteq> 200 \<and>
   (\<exists>run. TenantResource_Create (stub_world (answer 409 ''tenant exists'')) stub_tenant
             ([], Some (lidl StringUnknown)) empty_resp = Returned run \<and>
          sent run = [\<lparr>req_method = ''POST'', req_url = ''https://auth.test/tenants'',
                       req_body = Some ''tenant=lidl;'',
                       req_basic_auth = Some (''admin'', ''secret'')\<rparr>] \<and>
          Diags (response run) = [] \<and> \<not> HasError (Diags (response run)) \<and>
          State (response run) = None)"
proof -
  let ?w = "stub_world (answer 409 ''tenant exists'')"
  let ?q = "\<lparr>req_method = ''POST'', req_url = endpoint stub_pd @ ''/tenants'',
             req_body = Some ''tenant=lidl;'',
             req_basic_auth = Some (username stub_pd, password stub_pd)\<rparr>"
  let ?res = "\<lparr>StatusCode = 409, Body = Inr ''tenant exists''\<rparr>"
  have pd: "tenant_providerData stub_tenant = Some stub_pd"
    by (simp add: stub_tenant_def)
  have c: "client stub_pd = Some DefaultClient"
    by (simp add: stub_pd_def)
  have name: "tm_Name (lidl StringUnknown) = StringValue ''lidl''"
    by (simp add: lidl_def)
  have d0: "\<not> HasError (Diags (empty_resp :: TenantResourceModel Resp))"
    by (simp add: empty_resp_def HasError_def)
  have d1: "\<not> HasError []"
    by (simp add: HasError_def)
  have body: "json_Marshal ?w [(''tenant'', JString ''lidl'')] = Inr ''tenant=lidl;''"
    by (simp add: stub_world_def)
  have url: "NewRequest_err ?w ''POST'' (endpoint stub_pd @ ''/tenants'') = None"
    by (simp add: stub_world_def)
  have res: "client_Do ?w ?q = Inr ?res"
    by (simp add: stub_world_def answer_def)
  have status: "StatusCode ?res \<noteq> 200"
    by simp
  have readable: "Body ?res = Inr ''tenant exists''"
    by simp
  from tenant_create_non_200_reports_no_failure
         [OF pd c name d0 d1 body url refl res status readable]
  obtain run where run:
      "TenantResource_Create ?w stub_tenant ([], Some (lidl StringUnknown)) empty_resp
         = Returned run"
    and sent: "sent run = [?q]"
    and quiet: "\<not> HasError (Diags (response run))"
    and same: "Diags (response run) = Append (Diags (empty_resp :: TenantResourceModel Resp)) []"
    and state: "State (response run) = State (empty_resp :: TenantResourceModel Resp)"
    by auto
  from same have empty: "Diags (response run) = []"
    by (simp add: empty_resp_def)
  from state have none: "State (response run) = None"
    by (simp add: empty_resp_def)
  from sent
  have sent': "sent run = [\<lparr>req_method = ''POST'', req_url = ''https://auth.test/tenants'',
                      req_body = Some ''tenant=lidl;'',
                      req_basic_auth = Some (''admin'', ''secret'')\<rparr>]"
    by (simp add: stub_pd_def)
  from pd c name d0 d1 body url res status run sent' empty quiet none
  show ?thesis
    by blast
qed

section \<open>Status 200 and every other status\<close>

text \<open>
  For each operation three facts.  When the exchange is rejected, the status is not 200,
  nothing is stored or assigned, and a readable body ends up in the log and nowhere else.
  Replacing the decoder of the world changes nothing about a rejected exchange: the body
  is never decoded.  When the exchange succeeds, the decoded id is assigned to the local
  descriptor and (except in Delete, which stores nothing) handed to \<open>State.Set\<close>.
\<close>

lemma TenantResource_Create_rejected:
  "tenant_providerData r = Some pd \<Longrightarrow>
   \<not> HasError (Diags resp0) \<Longrightarrow>
   \<not> HasError ds \<Longrightarrow>
   TenantResource_Create w r (ds, Some data) resp0 = Returned run \<Longrightarrow>
   TenantCreate_exchange w pd data = RemoteRejected code rb \<Longrightarrow>
   code \<noteq> 200 \<and> State (response run) = State resp0 \<and> local_data run = Some data \<and>
   (\<forall>b. rb = Inr b \<longrightarrow>
      logs run = log_auth @ [(Error, ''could not create tenant'', [(''body'', b)])])"
  by (auto simp: TenantResource_Create_def TenantCreate_exchange_def step_defs HasError_Append_iff
      split: if_splits option.splits sum.splits)

lemma TenantResource_Create_never_decodes:
  "tenant_providerData r = Some pd \<Longrightarrow>
   TenantCreate_exchange w pd data = RemoteRejected code rb \<Longrightarrow>
   TenantResource_Create (w\<lparr>Unmarshal_createResponse := decode\<rparr>) r (ds, Some data) resp0
     = TenantResource_Create w r (ds, Some data) resp0"
  by (auto simp: TenantResource_Create_def TenantCreate_exchange_def step_defs
      split: if_splits option.splits sum.splits)

lemma TenantResource_Create_success:
  "tenant_providerData r = Some pd \<Longrightarrow>
   \<not> HasError (Diags resp0) \<Longrightarrow>
   \<not> HasError ds \<Longrightarrow>
   TenantResource_Create w r (ds, Some data) resp0 = Returned run \<Longrightarrow>
   TenantCreate_exchange w pd data = Success v \<Longrightarrow>
   local_data run = Some (data\<lparr>tm_ID := StringValue (cr_ID v)\<rparr>) \<and>
   State (response run) =
     (if HasError (Set_TenantResourceModel w (data\<lparr>tm_ID := StringValue (cr_ID v)\<rparr>))
      then State resp0 else Some (data\<lparr>tm_ID := StringValue (cr_ID v)\<rparr>))"
  by (auto simp: TenantResource_Create_def TenantCreate_exchange_def step_defs HasError_Append_iff
      split: if_splits option.splits sum.splits)

lemma TenantResource_Read_rejected:
  "tenant_providerData r = Some pd \<Longrightarrow>
   \<not> HasError (Diags resp0) \<Longrightarrow>
   \<not> HasError ds \<Longrightarrow>
   TenantResource_Read w r (ds, Some data) resp0 = Returned run \<Longrightarrow>
   TenantRead_exchange w pd data = RemoteRejected code rb \<Longrightarrow>
   code \<noteq> 200 \<and> State (response run) = State resp0 \<and> local_data run = Some data \<and>
   (\<forall>b. rb = Inr b \<longrightarrow>
      logs run = log_auth @ [(Error, ''could not read tenant'', [(''body'', b)])])"
  by (auto simp: TenantResource_Read_def TenantRead_exchange_def step_defs HasError_Append_iff
      split: if_splits option.splits sum.splits)

lemma TenantResource_Read_never_decodes:
  "tenant_providerData r = Some pd \<Longrightarrow>
   TenantRead_exchange w pd data = RemoteRejected code rb \<Longrightarrow>
   TenantResource_Read (w\<lparr>Unmarshal_readResponse := decode\<rparr>) r (ds, Some data) resp0
     = TenantResource_Read w r (ds, Some data) resp0"
  by (auto simp: TenantResource_Read_def TenantRead_exchange_def step_defs
      split: if_splits option.splits sum.splits)

lemma TenantResource_Read_success:
  "tenant_providerData r = Some pd \<Longrightarrow>
   \<not> HasError (Diags resp0) \<Longrightarrow>
   \<not> HasError ds \<Longrightarrow>
   TenantResource_Read w r (ds, Some data) resp0 = Returned run \<Longrightarrow>
   TenantRead_exchange w pd data = Success v \<Longrightarrow>
   local_data run = Some (data\<lparr>tm_ID := StringValue (rr_ID v)\<rparr>) \<and>
   State (response run) =
     (if HasError (Set_TenantResourceModel w (data\<lparr>tm_ID := StringValue (rr_ID v)\<rparr>))
      then State resp0 else Some (data\<lparr>tm_ID := StringValue (rr_ID v)\<rparr>))"
  by (auto simp: TenantResource_Read_def TenantRead_exchange_def step_defs HasError_Append_iff
      split: if_splits option.splits sum.splits)

lemma TenantResource_Update_rejected:
  "tenant_providerData r = Some pd \<Longrightarrow>
   \<not> HasError (Diags resp0) \<Longrightarrow>
   \<not> HasError ds1 \<Longrightarrow>
   \<not> HasError ds2 \<Longrightarrow>
   TenantResource_Update w r (ds1, Some old) (ds2, Some data) resp0 = Returned run \<Longrightarrow>
   TenantUpdate_exchange w pd old data = RemoteRejected code rb \<Longrightarrow>
   code \<noteq> 200 \<and> State (response run) = State resp0 \<and> local_data run = Some data \<and>
   (\<forall>b. rb = Inr b \<longrightarrow>
      logs run = log_auth @ [(Error, ''could not update tenant'', [(''body'', b)])])"
  by (auto simp: TenantResource_Update_def TenantUpdate_exchange_def step_defs HasError_Append_iff
      split: if_splits option.splits sum.splits)

lemma TenantResource_Update_never_decodes:
  "tenant_providerData r = Some pd \<Longrightarrow>
   TenantUpdate_exchange w pd old data = RemoteRejected code rb \<Longrightarrow>
   TenantResource_Update (w\<lparr>Unmarshal_updateResponse := decode\<rparr>) r (ds1, Some old) (ds2, Some data) resp0
     = TenantResource_Update w r (ds1, Some old) (ds2, Some data) resp0"
  by (auto simp: TenantResource_Update_def TenantUpdate_exchange_def step_defs
      split: if_splits option.splits sum.splits)

lemma TenantResource_Update_success:
  "tenant_providerData r = Some pd \<Longrightarrow>
   \<not> HasError (Diags resp0) \<Longrightarrow>
   \<not> HasError ds1 \<Longrightarrow>
   \<not> HasError ds2 \<Longrightarrow>
   TenantResource_Update w r (ds1, Some old) (ds2, Some data) resp0 = Returned run \<Longrightarrow>
   TenantUpdate_exchange w pd old data = Success v \<Longrightarrow>
   local_data run = Some (data\<lparr>tm_ID := StringValue (ur_ID v)\<rparr>) \<and>
   State (response run) =
     (if HasError (Set_TenantResourceModel w (data\<lparr>tm_ID := StringValue (ur_ID v)\<rparr>))
      then State resp0 else Some (data\<lparr>tm_ID := StringValue (ur_ID v)\<rparr>))"
  by (auto simp: TenantResource_Update_def TenantUpdate_exchange_def step_defs HasError_Append_iff
      split: if_splits option.splits sum.splits)

lemma TenantResource_Delete_rejected:
  "tenant_providerData r = Some pd \<Longrightarrow>
   \<not> HasError (Diags resp0) \<Longrightarrow>
   \<not> HasError ds \<Longrightarrow>
   TenantResource_Delete w r (ds, Some data) resp0 = Returned run \<Longrightarrow>
   TenantDelete_exchange w pd r = RemoteRejected code rb \<Longrightarrow>
   code \<noteq> 200 \<and> State (response run) = State resp0 \<and> local_data run = Some data \<and>
   (\<forall>b. rb = Inr b \<longrightarrow>
      logs run = log_auth @ [(Error, ''could not delete tenant'', [(''body'', b)])])"
  by (auto simp: TenantResource_Delete_def TenantDelete_exchange_def step_defs HasError_Append_iff
      split: if_splits option.splits sum.splits)

lemma TenantResource_Delete_never_decodes:
  "tenant_providerData r = Some pd \<Longrightarrow>
   TenantDelete_exchange w pd r = RemoteRejected code rb \<Longrightarrow>
   TenantResource_Delete (w\<lparr>Unmarshal_readResponse := decode\<rparr>) r (ds, Some data) resp0
     = TenantResource_Delete w r (ds, Some data) resp0"
  by (auto simp: TenantResource_Delete_def TenantDelete_exchange_def step_defs
      split: if_splits option.splits sum.splits)

lemma TenantResource_Delete_success:
  "tenant_providerData r = Some pd \<Longrightarrow>
   \<not> HasError (Diags resp0) \<Longrightarrow>
   \<not> HasError ds \<Longrightarrow>
   TenantResource_Delete w r (ds, Some data) resp0 = Returned run \<Longrightarrow>
   TenantDelete_exchange w pd r = Success v \<Longrightarrow>
   local_data run =
     Some (data\<lparr>tm_ID := StringValue (rr_ID v), tm_Name := StringValue (rr_Name v)\<rparr>) \<and>
   State (response run) = State resp0"
  by (auto simp: TenantResource_Delete_def TenantDelete_exchange_def step_defs HasError_Append_iff
      split: if_splits option.splits sum.splits)

lemma RoleResource_Create_rejected:
  "role_providerData r = Some pd \<Longrightarrow>
   \<not> HasError (Diags resp0) \<Longrightarrow>
   \<not> HasError ds \<Longrightarrow>
   \<not> HasError (fst (ElementsAs (rm_Scopes data))) \<Longrightarrow>
   RoleResource_Create w r (ds, Some data) resp0 = Returned run \<Longrightarrow>
   RoleCreate_exchange w pd data = RemoteRejected code rb \<Longrightarrow>
   code \<noteq> 200 \<and> State (response run) = State resp0 \<and> local_data run = Some data \<and>
   (\<forall>b. rb = Inr b \<longrightarrow>
      logs run = log_auth @ [(Error, ''could not create role'', [(''body'', b)])])"
  by (auto simp: RoleResource_Create_def RoleCreate_exchange_def step_defs HasError_Append_iff
      split: if_splits option.splits sum.splits prod.splits)

lemma RoleResource_Create_never_decodes:
  "role_providerData r = Some pd \<Longrightarrow>
   RoleCreate_exchange w pd data = RemoteRejected code rb \<Longrightarrow>
   RoleResource_Create (w\<lparr>Unmarshal_createRoleResponse := decode\<rparr>) r (ds, Some data) resp0
     = RoleResource_Create w r (ds, Some data) resp0"
  by (auto simp: RoleResource_Create_def RoleCreate_exchange_def step_defs
      split: if_splits option.splits sum.splits prod.splits)

lemma RoleResource_Create_success:
  "role_providerData r = Some pd \<Longrightarrow>
   \<not> HasError (Diags resp0) \<Longrightarrow>
   \<not> HasError ds \<Longrightarrow>
   \<not> HasError (fst (ElementsAs (rm_Scopes data))) \<Longrightarrow>
   RoleResource_Create w r (ds, Some data) resp0 = Returned run \<Longrightarrow>
   RoleCreate_exchange w pd data = Success v \<Longrightarrow>
   local_data run = Some (data\<lparr>rm_ID := StringValue (crr_ID v)\<rparr>) \<and>
   State (response run) =
     (if HasError (Set_RoleResourceModel w (data\<lparr>rm_ID := StringValue (crr_ID v)\<rparr>))
      then State resp0 else Some (data\<lparr>rm_ID := StringValue (crr_ID v)\<rparr>))"
  by (auto simp: RoleResource_Create_def RoleCreate_exchange_def step_defs HasError_Append_iff
      split: if_splits option.splits sum.splits prod.splits)

lemma RoleResource_Read_rejected:
  "role_providerData r = Some pd \<Longrightarrow>
   \<not> HasError (Diags resp0) \<Longrightarrow>
   \<not> HasError ds \<Longrightarrow>
   \<not> HasError (fst (ElementsAs (rm_Scopes data))) \<Longrightarrow>
   RoleResource_Read w r (ds, Some data) resp0 = Returned run \<Longrightarrow>
   RoleRead_exchange w pd data = RemoteRejected code rb \<Longrightarrow>
   code \<noteq> 200 \<and> State (response run) = State resp0 \<and> local_data run = Some data \<and>
   (\<forall>b. rb = Inr b \<longrightarrow>
      logs run = log_auth @ [(Error, ''could not read role'', [(''body'', b)])])"
  by (auto simp: RoleResource_Read_def RoleRead_exchange_def step_defs HasError_Append_iff
      split: if_splits option.splits sum.splits prod.splits)

lemma RoleResource_Read_never_decodes:
  "role_providerData r = Some pd \<Longrightarrow>
   RoleRead_exchange w pd data = RemoteRejected code rb \<Longrightarrow>
   RoleResource_Read (w\<lparr>Unmarshal_readRoleResponse := decode\<rparr>) r (ds, Some data) resp0
     = RoleResource_Read w r (ds, Some data) resp0"
  by (auto simp: RoleResource_Read_def RoleRead_exchange_def step_defs
      split: if_splits option.splits sum.splits prod.splits)

lemma RoleResource_Read_success:
  assumes pd: "role_providerData r = Some pd"
    and d0: "\<not> HasError (Diags resp0)"
    and d1: "\<not> HasError ds"
    and d2: "\<not> HasError (fst (ElementsAs (rm_Scopes data)))"
    and run: "RoleResource_Read w r (ds, Some data) resp0 = Returned run"
    and ex: "RoleRead_exchange w pd data = Success v"
  shows "local_data run = Some (data\<lparr>rm_ID := StringValue (rrr_ID v)\<rparr>) \<and>
         State (response run) =
           (if HasError (Set_RoleResourceModel w (data\<lparr>rm_ID := StringValue (rrr_ID v)\<rparr>))
            then State resp0 else Some (data\<lparr>rm_ID := StringValue (rrr_ID v)\<rparr>))"
proof -
  obtain dsE scopes where E: "ElementsAs (rm_Scopes data) = (dsE, scopes)"
    by (cases "ElementsAs (rm_Scopes data)")
  with d2 have ok: "\<not> HasError dsE"
    by simp
  have L: "ListValueFrom scopes = (rm_Scopes data, [])"
    by (rule ListValueFrom_ElementsAs [OF E ok])
  show ?thesis
    using pd d0 d1 run ex E ok L
    by (cases data)
       (auto simp: RoleResource_Read_def RoleRead_exchange_def step_defs HasError_Append_iff
          split: sum.splits option.splits if_splits)
qed

lemma RoleResource_Update_rejected:
  "role_providerData r = Some pd \<Longrightarrow>
   \<not> HasError (Diags resp0) \<Longrightarrow>
   \<not> HasError ds1 \<Longrightarrow>
   \<not> HasError ds2 \<Longrightarrow>
   RoleResource_Update w r (ds1, Some old) (ds2, Some data) resp0 = Returned run \<Longrightarrow>
   RoleUpdate_exchange w pd old data = RemoteRejected code rb \<Longrightarrow>
   code \<noteq> 200 \<and> State (response run) = State resp0 \<and> local_data run = Some data \<and>
   (\<forall>b. rb = Inr b \<longrightarrow>
      logs run = log_auth @ [(Error, ''could not update tenant'', [(''body'', b)])])"
  by (auto simp: RoleResource_Update_def RoleUpdate_exchange_def step_defs HasError_Append_iff
      split: if_splits option.splits sum.splits)

lemma RoleResource_Update_never_decodes:
  "role_providerData r = Some pd \<Longrightarrow>
   RoleUpdate_exchange w pd old data = RemoteRejected code rb \<Longrightarrow>
   RoleResource_Update (w\<lparr>Unmarshal_updateResponse := decode\<rparr>) r (ds1, Some old) (ds2, Some data) resp0
     = RoleResource_Update w r (ds1, Some old) (ds2, Some data) resp0"
  by (auto simp: RoleResource_Update_def RoleUpdate_exchange_def step_defs
      split: if_splits option.splits sum.splits)

lemma RoleResource_Update_success:
  "role_providerData r = Some pd \<Longrightarrow>
   \<not> HasError (Diags resp0) \<Longrightarrow>
   \<not> HasError ds1 \<Longrightarrow>
   \<not> HasError ds2 \<Longrightarrow>
   RoleResource_Update w r (ds1, Some old) (ds2, Some data) resp0 = Returned run \<Longrightarrow>
   RoleUpdate_exchange w pd old data = Success v \<Longrightarrow>
   local_data run = Some (data\<lparr>rm_ID := StringValue (ur_ID v)\<rparr>) \<and>
   State (response run) =
     (if HasError (Set_RoleResourceModel w (data\<lparr>rm_ID := StringValue (ur_ID v)\<rparr>))
      then State resp0 else Some (data\<lparr>rm_ID := StringValue (ur_ID v)\<rparr>))"
  by (auto simp: RoleResource_Update_def RoleUpdate_exchange_def step_defs HasError_Append_iff
      split: if_splits option.splits sum.splits)

lemma RoleResource_Delete_rejected:
  "role_providerData r = Some pd \<Longrightarrow>
   \<not> HasError (Diags resp0) \<Longrightarrow>
   \<not> HasError ds \<Longrightarrow>
   RoleResource_Delete w r r_name (ds, Some data) resp0 = Returned run \<Longrightarrow>
   RoleDelete_exchange w pd r_name = RemoteRejected code rb \<Longrightarrow>
   code \<noteq> 200 \<and> State (response run) = State resp0 \<and> local_data run = Some data \<and>
   (\<forall>b. rb = Inr b \<longrightarrow>
      logs run = log_auth @ [(Error, ''could not delete tenant'', [(''body'', b)])])"
  by (auto simp: RoleResource_Delete_def RoleDelete_exchange_def step_defs HasError_Append_iff
      split: if_splits option.splits sum.splits)

lemma RoleResource_Delete_never_decodes:
  "role_providerData r = Some pd \<Longrightarrow>
   RoleDelete_exchange w pd r_name = RemoteRejected code rb \<Longrightarrow>
   RoleResource_Delete (w\<lparr>Unmarshal_readResponse := decode\<rparr>) r r_name (ds, Some data) resp0
     = RoleResource_Delete w r r_name (ds, Some data) resp0"
  by (auto simp: RoleResource_Delete_def RoleDelete_exchange_def step_defs
      split: if_splits option.splits sum.splits)

lemma RoleResource_Delete_success:
  "role_providerData r = Some pd \<Longrightarrow>
   \<not> HasError (Diags resp0) \<Longrightarrow>
   \<not> HasError ds \<Longrightarrow>
   RoleResource_Delete w r r_name (ds, Some data) resp0 = Returned run \<Longrightarrow>
   RoleDelete_exchange w pd r_name = Success v \<Longrightarrow>
   local_data run =
     Some (data\<lparr>rm_ID := StringValue (rr_ID v), rm_Name := StringValue (rr_Name v)\<rparr>) \<and>
   State (response run) = State resp0"
  by (auto simp: RoleResource_Delete_def RoleDelete_exchange_def step_defs HasError_Append_iff
      split: if_splits option.splits sum.splits)

lemma TenantDataSource_Read_rejected:
  "\<not> HasError (Diags resp0) \<Longrightarrow>
   \<not> HasError ds \<Longrightarrow>
   TenantDataSource_Read w d (ds, data) resp0 = Returned run \<Longrightarrow>
   DataRead_exchange w d data = RemoteRejected code rb \<Longrightarrow>
   code \<noteq> 200 \<and> State (response run) = State resp0 \<and> local_data run = Some data \<and>
   (\<forall>b. rb = Inr b \<longrightarrow>
      logs run = log_auth @ [(Error, ''could not read tenant'', [(''body'', b)])])"
  by (auto simp: TenantDataSource_Read_def DataRead_exchange_def step_defs HasError_Append_iff
      split: if_splits option.splits sum.splits)

lemma TenantDataSource_Read_never_decodes:
  "DataRead_exchange w d data = RemoteRejected code rb \<Longrightarrow>
   TenantDataSource_Read (w\<lparr>Unmarshal_tenantDataReadResponse := decode\<rparr>) d (ds, data) resp0
     = TenantDataSource_Read w d (ds, data) resp0"
  by (auto simp: TenantDataSource_Read_def DataRead_exchange_def step_defs
      split: if_splits option.splits sum.splits)

lemma TenantDataSource_Read_success:
  "\<not> HasError (Diags resp0) \<Longrightarrow>
   \<not> HasError ds \<Longrightarrow>
   TenantDataSource_Read w d (ds, data) resp0 = Returned run \<Longrightarrow>
   DataRead_exchange w d data = Success v \<Longrightarrow>
   local_data run = Some (data\<lparr>dm_ID := StringValue (dr_ID v)\<rparr>) \<and>
   State (response run) =
     (if HasError (Set_TenantDataSourceModel w (data\<lparr>dm_ID := StringValue (dr_ID v)\<rparr>))
      then State resp0 else Some (data\<lparr>dm_ID := StringValue (dr_ID v)\<rparr>))"
  by (auto simp: TenantDataSource_Read_def DataRead_exchange_def step_defs HasError_Append_iff
      split: if_splits option.splits sum.splits)

text \<open>
  Claim C6 asks that a completed exchange count as a success exactly when its status is
  200, and that with any other status the operation fail, the body serving the log only.
  The test of the status, the log entry and the unused decoder are as the lemmas above
  say.  The failure is not there.  Each of the nine operations, answered with status 500
  and a readable body, returns a response without any diagnostic, the state as it was;
  Tenant Delete hands back for 500 the very response and request it hands back for 200.
  This is the rejected exchange that every operation drops (claim C1).
\<close>

theorem non_200_does_not_fail_the_operation:
  "TenantResource_Create (stub_world (answer 500 ''boom'')) stub_tenant
       ([], Some (lidl StringUnknown)) empty_resp
     = Ret \<lparr>Diags = [], State = None\<rparr>
         [\<lparr>req_method = ''POST'', req_url = ''https://auth.test/tenants'',
           req_body = Some ''tenant=lidl;'', req_basic_auth = Some (''admin'', ''secret'')\<rparr>]
         (log_auth @ [(Error, ''could not create tenant'', [(''body'', ''boom'')])])
         (Some (lidl StringUnknown)) \<and>
   TenantResource_Read (stub_world (answer 500 ''boom'')) stub_tenant
       ([], Some (lidl (StringValue ''t-1'')))
       \<lparr>Diags = [], State = Some (lidl (StringValue ''t-1''))\<rparr>
     = Ret \<lparr>Diags = [], State = Some (lidl (StringValue ''t-1''))\<rparr>
         [\<lparr>req_method = ''GET'', req_url = ''https://auth.test/tenants/lidl'',
           req_body = None, req_basic_auth = Some (''admin'', ''secret'')\<rparr>]
         (log_auth @ [(Error, ''could not read tenant'', [(''body'', ''boom'')])])
         (Some (lidl (StringValue ''t-1''))) \<and>
   TenantResource_Update (stub_world (answer 500 ''boom'')) stub_tenant
       ([], Some (lidl (StringValue ''t-1''))) ([], Some (lidl (StringValue ''t-1'')))
       \<lparr>Diags = [], State = Some (lidl (StringValue ''t-1''))\<rparr>
     = Ret \<lparr>Diags = [], State = Some (lidl (StringValue ''t-1''))\<rparr>
         [\<lparr>req_method = ''PATCH'', req_url = ''https://auth.test/tenants'',
           req_body = Some ''tenant=lidl;new_tenant=lidl;'',
           req_basic_auth = Some (''admin'', ''secret'')\<rparr>]
         (log_auth @ [(Error, ''could not update tenant'', [(''body'', ''boom'')])])
         (Some (lidl (StringValue ''t-1''))) \<and>
   TenantResource_Delete (stub_world (answer 500 ''boom'')) stub_tenant
       ([], Some (lidl (StringValue ''t-1'')))
       \<lparr>Diags = [], State = Some (lidl (StringValue ''t-1''))\<rparr>
     = Ret \<lparr>Diags = [], State = Some (lidl (StringValue ''t-1''))\<rparr>
         [\<lparr>req_method = ''DELETE'', req_url = ''https://auth.test/tenants/'',
           req_body = None, req_basic_auth = Some (''admin'', ''secret'')\<rparr>]
         (log_auth @ [(Error, ''could not delete tenant'', [(''body'', ''boom'')])])
         (Some (lidl (StringValue ''t-1''))) \<and>
   TenantResource_Delete (stub_world (answer 200 ''t-1'')) stub_tenant
       ([], Some (lidl (StringValue ''t-1'')))
       \<lparr>Diags = [], State = Some (lidl (StringValue ''t-1''))\<rparr>
     = Ret \<lparr>Diags = [], State = Some (lidl (StringValue ''t-1''))\<rparr>
         [\<lparr>req_method = ''DELETE'', req_url = ''https://auth.test/tenants/'',
           req_body = None, req_basic_auth = Some (''admin'', ''secret'')\<rparr>]
         log_auth
         (Some \<lparr>tm_Name = StringValue ''remote-name'', tm_ID = StringValue ''t-1''\<rparr>) \<and>
   RoleResource_Create (stub_world (answer 500 ''boom'')) stub_role
       ([], Some (reader StringUnknown)) empty_resp
     = Ret \<lparr>Diags = [], State = None\<rparr>
         [\<lparr>req_method = ''POST'', req_url = ''https://auth.test/roles'',
           req_body = Some ''name=reader;tenant=acme;scopes=[read,write,];'',
           req_basic_auth = Some (''admin'', ''secret'')\<rparr>]
         (log_auth @ [(Error, ''could not create role'', [(''body'', ''boom'')])])
         (Some (reader StringUnknown)) \<and>
   RoleResource_Read (stub_world (answer 500 ''boom'')) stub_role
       ([], Some (reader (StringValue ''r-1'')))
       \<lparr>Diags = [], State = Some (reader (StringValue ''r-1''))\<rparr>
     = Ret \<lparr>Diags = [], State = Some (reader (StringValue ''r-1''))\<rparr>
         [\<lparr>req_method = ''GET'', req_url = ''https://auth.test/tenants/acme/roles/reader'',
           req_body = None, req_basic_auth = Some (''admin'', ''secret'')\<rparr>]
         (log_auth @ [(Error, ''could not read role'', [(''body'', ''boom'')])])
         (Some (reader (StringValue ''r-1''))) \<and>
   RoleResource_Update (stub_world (answer 500 ''boom'')) stub_role
       ([], Some (reader (StringValue ''r-1''))) ([], Some (writer (StringValue ''r-1'')))
       \<lparr>Diags = [], State = Some (reader (StringValue ''r-1''))\<rparr>
     = Ret \<lparr>Diags = [], State = Some (reader (StringValue ''r-1''))\<rparr>
         [\<lparr>req_method = ''PATCH'', req_url = ''https://auth.test/tenants'',
           req_body = Some ''tenant=reader;new_tenant=writer;'',
           req_basic_auth = Some (''admin'', ''secret'')\<rparr>]
         (log_auth @ [(Error, ''could not update tenant'', [(''body'', ''boom'')])])
         (Some (writer (StringValue ''r-1''))) \<and>
   (\<forall>r_name.
      RoleResource_Delete (stub_world (answer 500 ''boom'')) stub_role r_name
          ([], Some (reader (StringValue ''r-1'')))
          \<lparr>Diags = [], State = Some (reader (StringValue ''r-1''))\<rparr>
        = Ret \<lparr>Diags = [], State = Some (reader (StringValue ''r-1''))\<rparr>
            [\<lparr>req_method = ''DELETE'', req_url = ''https://auth.test/tenants/'' @ r_name,
              req_body = None, req_basic_auth = Some (''admin'', ''secret'')\<rparr>]
            (log_auth @ [(Error, ''could not delete tenant'', [(''body'', ''boom'')])])
            (Some (reader (StringValue ''r-1'')))) \<and>
   TenantDataSource_Read (stub_world (answer 500 ''boom'')) stub_source
       ([], \<lparr>dm_ID = StringNull, dm_Name = StringValue ''lidl''\<rparr>) empty_resp
     = Ret \<lparr>Diags = [], State = None\<rparr>
         [\<lparr>req_method = ''GET'', req_url = ''https://auth.test/tenants/lidl'',
           req_body = None, req_basic_auth = Some (''admin'', ''secret'')\<rparr>]
         (log_auth @ [(Error, ''could not read tenant'', [(''body'', ''boom'')])])
         (Some \<lparr>dm_ID = StringNull, dm_Name = StringValue ''lidl''\<rparr>) \<and>
   \<not> HasError []"
  by (simp add: op_defs step_defs stub_defs)

section \<open>Scopes\<close>

text \<open>
  Claim C7.  A Role whose scopes are the strings \<open>s\<close>, in that order: when Create saves a
  state (there was none before) and a Read then starts from that state, the state after
  the Read carries a scopes list that converts back to exactly \<open>s\<close>, element for element
  and in the same order.  This holds for a successful Read, which rebuilds the list from
  the prior state, and for one that fails, which stores nothing.
\<close>

theorem role_scopes_round_trip:
  assumes "rm_Scopes plan = ListValue (map StringValue s)"
    and "State resp0 = None"
    and "RoleResource_Create w r (ds, Some plan) resp0 = Returned run1"
    and "State (response run1) = Some stored"
    and "State resp1 = Some stored"
    and "RoleResource_Read w' r' (ds', Some stored) resp1 = Returned run2"
  shows "\<exists>d. State (response run2) = Some d \<and>
             rm_Scopes d = ListValue (map StringValue s) \<and>
             ElementsAs (rm_Scopes d) = ([], Some s)"
proof -
  have st: "rm_Scopes stored = ListValue (map StringValue s)"
    using assms(1-4)
    by (auto simp: RoleResource_Create_def step_defs
        split: sum.splits option.splits if_splits prod.splits)
  have "\<exists>d. State (response run2) = Some d \<and> rm_Scopes d = ListValue (map StringValue s)"
    using assms(5,6) st
    by (auto simp: RoleResource_Read_def step_defs elems_as_strings_known
        split: sum.splits option.splits if_splits prod.splits)
  then show ?thesis
    by (auto simp: elems_as_strings_known)
qed

text \<open>Create and Read of a role with scopes \<open>read, write\<close>, both answered with 200.\<close>

theorem role_scopes_round_trip_witness:
  "rm_Scopes (reader StringUnknown) = ListValue (map StringValue [''read'', ''write'']) \<and>
   State (empty_resp :: RoleResourceModel Resp) = None \<and>
   (\<exists>run1 run2.
      RoleResource_Create (stub_world (answer 200 ''r-1'')) stub_role
        ([], Some (reader StringUnknown)) empty_resp = Returned run1 \<and>
      State (response run1) = Some (reader (StringValue ''r-1'')) \<and>
      RoleResource_Read (stub_world (answer 200 ''r-1'')) stub_role
        ([], Some (reader (StringValue ''r-1'')))
        \<lparr>Diags = [], State = Some (reader (StringValue ''r-1''))\<rparr> = Returned run2 \<and>
      sent run2 = [\<lparr>req_method = ''GET'',
                     req_url = ''https://auth.test/tenants/acme/roles/reader'',
                     req_body = None, req_basic_auth = Some (''admin'', ''secret'')\<rparr>] \<and>
      (\<exists>d. State (response run2) = Some d \<and>
           rm_Scopes d = ListValue [StringValue ''read'', StringValue ''write''] \<and>
           ElementsAs (rm_Scopes d) = ([], Some [''read'', ''write''])))"
proof -
  let ?w = "stub_world (answer 200 ''r-1'')"
  let ?stored = "reader (StringValue ''r-1'')"
  let ?resp1 = "\<lparr>Diags = [], State = Some ?stored\<rparr>"
  have scopes: "rm_Scopes (reader StringUnknown) = ListValue (map StringValue [''read'', ''write''])"
    by (simp add: reader_def)
  have none: "State (empty_resp :: RoleResourceModel Resp) = None"
    by (simp add: empty_resp_def)
  obtain run1 where run1:
      "RoleResource_Create ?w stub_role ([], Some (reader StringUnknown)) empty_resp
         = Returned run1"
    and stored: "State (response run1) = Some ?stored"
    by (simp add: RoleResource_Create_def step_defs stub_defs)
  have prior: "State ?resp1 = Some ?stored"
    by simp
  obtain run2 where run2:
      "RoleResource_Read ?w stub_role ([], Some ?stored) ?resp1 = Returned run2"
    and sent: "sent run2 = [\<lparr>req_method = ''GET'',
                     req_url = ''https://auth.test/tenants/acme/roles/reader'',
                     req_body = None, req_basic_auth = Some (''admin'', ''secret'')\<rparr>]"
    by (simp add: RoleResource_Read_def step_defs stub_defs)
  from role_scopes_round_trip [OF scopes none run1 stored prior run2]
  have "\<exists>d. State (response run2) = Some d \<and>
           rm_Scopes d = ListValue [StringValue ''read'', StringValue ''write''] \<and>
           ElementsAs (rm_Scopes d) = ([], Some [''read'', ''write''])"
    by simp
  with scopes none run1 stored run2 sent show ?thesis
    by blast
qed

section \<open>Authentication\<close>

lemma TenantResource_Create_auth:
  "tenant_providerData r = Some pd \<Longrightarrow>
   TenantResource_Create w r st resp0 = Returned run \<Longrightarrow>
   list_all (\<lambda>q. req_basic_auth q = Some (username pd, password pd)) (sent run)"
  by (auto simp: TenantResource_Create_def step_defs SetBasicAuth_def
      split: if_splits option.splits sum.splits)

lemma TenantResource_Read_auth:
  "tenant_providerData r = Some pd \<Longrightarrow>
   TenantResource_Read w r st resp0 = Returned run \<Longrightarrow>
   list_all (\<lambda>q. req_basic_auth q = Some (username pd, password pd)) (sent run)"
  by (auto simp: TenantResource_Read_def step_defs SetBasicAuth_def
      split: if_splits option.splits sum.splits)

lemma TenantResource_Update_auth:
  "tenant_providerData r = Some pd \<Longrightarrow>
   TenantResource_Update w r st plan resp0 = Returned run \<Longrightarrow>
   list_all (\<lambda>q. req_basic_auth q = Some (username pd, password pd)) (sent run)"
  by (auto simp: TenantResource_Update_def step_defs SetBasicAuth_def
      split: if_splits option.splits sum.splits)

lemma TenantResource_Delete_auth:
  "tenant_providerData r = Some pd \<Longrightarrow>
   TenantResource_Delete w r st resp0 = Returned run \<Longrightarrow>
   list_all (\<lambda>q. req_basic_auth q = Some (username pd, password pd)) (sent run)"
  by (auto simp: TenantResource_Delete_def step_defs SetBasicAuth_def
      split: if_splits option.splits sum.splits)

lemma RoleResource_Create_auth:
  "role_providerData r = Some pd \<Longrightarrow>
   RoleResource_Create w r st resp0 = Returned run \<Longrightarrow>
   list_all (\<lambda>q. req_basic_auth q = Some (username pd, password pd)) (sent run)"
  by (auto simp: RoleResource_Create_def step_defs SetBasicAuth_def
      split: if_splits option.splits sum.splits prod.splits)

lemma RoleResource_Read_auth:
  "role_providerData r = Some pd \<Longrightarrow>
   RoleResource_Read w r st resp0 = Returned run \<Longrightarrow>
   list_all (\<lambda>q. req_basic_auth q = Some (username pd, password pd)) (sent run)"
  by (auto simp: RoleResource_Read_def step_defs SetBasicAuth_def
      split: if_splits option.splits sum.splits prod.splits)

lemma RoleResource_Update_auth:
  "role_providerData r = Some pd \<Longrightarrow>
   RoleResource_Update w r st plan resp0 = Returned run \<Longrightarrow>
   list_all (\<lambda>q. req_basic_auth q = Some (username pd, password pd)) (sent run)"
  by (auto simp: RoleResource_Update_def step_defs SetBasicAuth_def
      split: if_splits option.splits sum.splits)

lemma RoleResource_Delete_auth:
  "role_providerData r = Some pd \<Longrightarrow>
   RoleResource_Delete w r r_name st resp0 = Returned run \<Longrightarrow>
   list_all (\<lambda>q. req_basic_auth q = Some (username pd, password pd)) (sent run)"
  by (auto simp: RoleResource_Delete_def step_defs SetBasicAuth_def
      split: if_splits option.splits sum.splits)

lemma TenantDataSource_Read_auth:
  "TenantDataSource_Read w d cfg resp0 = Returned run \<Longrightarrow>
   list_all (\<lambda>q. req_basic_auth q = Some (ds_username d, ds_password d)) (sent run)"
  by (auto simp: TenantDataSource_Read_def step_defs SetBasicAuth_def
      split: if_splits option.splits sum.splits)


lemma Configure_hands_over:
  "tenant_providerData (fst (TenantResource_Configure t (IsProviderData pd) diags)) = Some pd"
  "role_providerData (fst (RoleResource_Configure r (IsProviderData pd) diags)) = Some pd"
  "ds_username (fst (TenantDataSource_Configure d (IsProviderData pd) diags)) = username pd"
  "ds_password (fst (TenantDataSource_Configure d (IsProviderData pd) diags)) = password pd"
  by (simp_all add: TenantResource_Configure_def RoleResource_Configure_def
      TenantDataSource_Configure_def)

lemma AuthProxy_Configure_credentials:
  assumes "\<not> HasError (cfg_Diags resp0)" and "\<not> HasError ds"
  shows "ResourceData (AuthProxy_Configure p (ds, m) resp0) =
           IsProviderData \<lparr>client = Some DefaultClient, endpoint = ValueString (md_Endpoint m),
             username = ValueString (md_Username m), password = ValueString (md_Password m)\<rparr>"
    and "DataSourceData (AuthProxy_Configure p (ds, m) resp0) =
           IsProviderData \<lparr>client = Some DefaultClient, endpoint = ValueString (md_Endpoint m),
             username = ValueString (md_Username m), password = ValueString (md_Password m)\<rparr>"
  using assms by (simp_all add: AuthProxy_Configure_def Let_def HasError_Append_iff)

text \<open>
  Claim C8.  In each of the nine operations every request handed to the HTTP client
  carries the Basic-Authentication credentials of the configuration: the username and
  password of the provider data the resource holds, or the copies the data source took of
  them.  The credentials are set on the request before it is handed over.
\<close>

theorem every_request_carries_basic_auth:
  "(\<forall>w r pd st resp0 run.
      tenant_providerData r = Some pd \<longrightarrow>
      TenantResource_Create w r st resp0 = Returned run \<longrightarrow>
      list_all (\<lambda>q. req_basic_auth q = Some (username pd, password pd)) (sent run)) \<and>
   (\<forall>w r pd st resp0 run.
      tenant_providerData r = Some pd \<longrightarrow>
      TenantResource_Read w r st resp0 = Returned run \<longrightarrow>
      list_all (\<lambda>q. req_basic_auth q = Some (username pd, password pd)) (sent run)) \<and>
   (\<forall>w r pd st plan resp0 run.
      tenant_providerData r = Some pd \<longrightarrow>
      TenantResource_Update w r st plan resp0 = Returned run \<longrightarrow>
      list_all (\<lambda>q. req_basic_auth q = Some (username pd, password pd)) (sent run)) \<and>
   (\<forall>w r pd st resp0 run.
      tenant_providerData r = Some pd \<longrightarrow>
      TenantResource_Delete w r st resp0 = Returned run \<longrightarrow>
      list_all (\<lambda>q. req_basic_auth q = Some (username pd, password pd)) (sent run)) \<and>
   (\<forall>w r pd st resp0 run.
      role_providerData r = Some pd \<longrightarrow>
      RoleResource_Create w r st resp0 = Returned run \<longrightarrow>
      list_all (\<lambda>q. req_basic_auth q = Some (username pd, password pd)) (sent run)) \<and>
   (\<forall>w r pd st resp0 run.
      role_providerData r = Some pd \<longrightarrow>
      RoleResource_Read w r st resp0 = Returned run \<longrightarrow>
      list_all (\<lambda>q. req_basic_auth q = Some (username pd, password pd)) (sent run)) \<and>
   (\<forall>w r pd st plan resp0 run.
      role_providerData r = Some pd \<longrightarrow>
      RoleResource_Update w r st plan resp0 = Returned run \<longrightarrow>
      list_all (\<lambda>q. req_basic_auth q = Some (username pd, password pd)) (sent run)) \<and>
   (\<forall>w r r_name pd st resp0 run.
      role_providerData r = Some pd \<longrightarrow>
      RoleResource_Delete w r r_name st resp0 = Returned run \<longrightarrow>
      list_all (\<lambda>q. req_basic_auth q = Some (username pd, password pd)) (sent run)) \<and>
   (\<forall>w d cfg resp0 run.
      TenantDataSource_Read w d cfg resp0 = Returned run \<longrightarrow>
      list_all (\<lambda>q. req_basic_auth q = Some (ds_username d, ds_password d)) (sent run))"
  by (intro conjI; intro allI impI;
      ((rule TenantResource_Create_auth; assumption)
       | (rule TenantResource_Read_auth; assumption)
       | (rule TenantResource_Update_auth; assumption)
       | (rule TenantResource_Delete_auth; assumption)
       | (rule RoleResource_Create_auth; assumption)
       | (rule RoleResource_Read_auth; assumption)
       | (rule RoleResource_Update_auth; assumption)
       | (rule RoleResource_Delete_auth; assumption)
       | (rule TenantDataSource_Read_auth; assumption)))

text \<open>
  From the provider's configuration to the request: the credentials \<open>admin\<close>, \<open>secret\<close>
  configured for the provider are those of the request that Tenant Create sends.
\<close>

theorem every_request_carries_basic_auth_witness:
  "ResourceData (AuthProxy_Configure \<lparr>version = ''dev''\<rparr>
     ([], \<lparr>md_Endpoint = StringValue ''https://auth.test'', md_Password = StringValue ''secret'',
           md_Username = StringValue ''admin''\<rparr>)
     \<lparr>cfg_Diags = [], DataSourceData = NilData, ResourceData = NilData\<rparr>)
     = IsProviderData stub_pd \<and>
   TenantResource_Configure \<lparr>tenant_providerData = None, tenant_name = []\<rparr>
     (IsProviderData stub_pd) [] = (stub_tenant, []) \<and>
   tenant_providerData stub_tenant = Some stub_pd \<and>
   (\<exists>run. TenantResource_Create (stub_world (answer 200 ''t-1'')) stub_tenant
             ([], Some (lidl StringUnknown)) empty_resp = Returned run \<and>
          sent run = [\<lparr>req_method = ''POST'', req_url = ''https://auth.test/tenants'',
                       req_body = Some ''tenant=lidl;'',
                       req_basic_auth = Some (''admin'', ''secret'')\<rparr>] \<and>
          list_all (\<lambda>q. req_basic_auth q = Some (username stub_pd, password stub_pd))
            (sent run))"
proof -
  let ?w = "stub_world (answer 200 ''t-1'')"
  have pd: "tenant_providerData stub_tenant = Some stub_pd"
    by (simp add: stub_tenant_def)
  obtain run where run:
      "TenantResource_Create ?w stub_tenant ([], Some (lidl StringUnknown)) empty_resp
         = Returned run"
    and sent: "sent run = [\<lparr>req_method = ''POST'', req_url = ''https://auth.test/tenants'',
                       req_body = Some ''tenant=lidl;'',
                       req_basic_auth = Some (''admin'', ''secret'')\<rparr>]"
    by (simp add: TenantResource_Create_def step_defs stub_defs)
  have cfg: "ResourceData (AuthProxy_Configure \<lparr>version = ''dev''\<rparr>
     ([], \<lparr>md_Endpoint = StringValue ''https://auth.test'', md_Password = StringValue ''secret'',
           md_Username = StringValue ''admin''\<rparr>)
     \<lparr>cfg_Diags = [], DataSourceData = NilData, ResourceData = NilData\<rparr>)
     = IsProviderData stub_pd"
    by (simp add: AuthProxy_Configure_def Let_def HasError_def stub_pd_def)
  have res: "TenantResource_Configure \<lparr>tenant_providerData = None, tenant_name = []\<rparr>
     (IsProviderData stub_pd) [] = (stub_tenant, [])"
    by (simp add: TenantResource_Configure_def stub_tenant_def)
  have "list_all (\<lambda>q. req_basic_auth q = Some (username stub_pd, password stub_pd)) (sent run)"
    by (rule every_request_carries_basic_auth [THEN conjunct1, rule_format, OF pd run])
  with cfg res pd run sent show ?thesis
    by blast
qed

section \<open>Role Read\<close>

text \<open>
  Claim C9.  A Role Read on a configured resource, with no error among the incoming
  diagnostics and a scopes list that converts, whose exchange ends with status 200 and a
  body that decodes to \<open>v\<close>, and whose descriptor the framework accepts: the stored
  descriptor is the prior one with the id of \<open>v\<close>.  Name, tenant and scopes are those of
  the prior state, whatever name, tenant and scopes \<open>v\<close> carries.
\<close>

theorem role_read_takes_only_the_id:
  assumes "role_providerData r = Some pd"
    and "\<not> HasError (Diags resp0)" and "\<not> HasError ds"
    and "\<not> HasError (fst (ElementsAs (rm_Scopes data)))"
    and "RoleResource_Read w r (ds, Some data) resp0 = Returned run"
    and "RoleRead_exchange w pd data = Success v"
    and "\<not> HasError (Set_RoleResourceModel w (data\<lparr>rm_ID := StringValue (rrr_ID v)\<rparr>))"
  shows "\<exists>d. State (response run) = Some d \<and>
             rm_ID d = StringValue (rrr_ID v) \<and>
             rm_Scopes d = rm_Scopes data \<and> rm_Name d = rm_Name data \<and>
             rm_Tenant d = rm_Tenant data"
  using RoleResource_Read_success [OF assms(1-6)] assms(7)
  by simp

theorem role_read_takes_only_the_id_witness:
  "role_providerData stub_role = Some stub_pd \<and>
   \<not> HasError (Diags \<lparr>Diags = [], State = Some (reader (StringValue ''r-0''))\<rparr>) \<and>
   \<not> HasError [] \<and>
   \<not> HasError (fst (ElementsAs (rm_Scopes (reader (StringValue ''r-0''))))) \<and>
   RoleRead_exchange (stub_world (answer 200 ''r-1'')) stub_pd (reader (StringValue ''r-0''))
     = Success \<lparr>rrr_ID = ''r-1'', rrr_Name = ''remote-name'', rrr_Tenant = ''remote-tenant'',
                rrr_Scopes = Some [''remote-scope'']\<rparr> \<and>
   \<not> HasError (Set_RoleResourceModel (stub_world (answer 200 ''r-1''))
                 (reader (StringValue ''r-1''))) \<and>
   (\<exists>run. RoleResource_Read (stub_world (answer 200 ''r-1'')) stub_role
             ([], Some (reader (StringValue ''r-0'')))
             \<lparr>Diags = [], State = Some (reader (StringValue ''r-0''))\<rparr> = Returned run \<and>
          State (response run) = Some (reader (StringValue ''r-1'')))"
proof -
  let ?w = "stub_world (answer 200 ''r-1'')"
  let ?d = "reader (StringValue ''r-0'')"
  let ?resp = "\<lparr>Diags = [], State = Some ?d\<rparr>"
  let ?v = "\<lparr>rrr_ID = ''r-1'', rrr_Name = ''remote-name'', rrr_Tenant = ''remote-tenant'',
             rrr_Scopes = Some [''remote-scope'']\<rparr>"
  have pd: "role_providerData stub_role = Some stub_pd"
    by (simp add: stub_role_def)
  have d0: "\<not> HasError (Diags ?resp)"
    by (simp add: HasError_def)
  have d1: "\<not> HasError []"
    by (simp add: HasError_def)
  have d2: "\<not> HasError (fst (ElementsAs (rm_Scopes ?d)))"
    by (simp add: reader_def HasError_def)
  have ex: "RoleRead_exchange ?w stub_pd ?d = Success ?v"
    by (simp add: RoleRead_exchange_def step_defs stub_defs)
  have upd: "?d\<lparr>rm_ID := StringValue (rrr_ID ?v)\<rparr> = reader (StringValue ''r-1'')"
    by (simp add: reader_def)
  have set_ok: "\<not> HasError (Set_RoleResourceModel ?w (reader (StringValue ''r-1'')))"
    by (simp add: stub_world_def HasError_def)
  obtain run where run: "RoleResource_Read ?w stub_role ([], Some ?d) ?resp = Returned run"
    by (simp add: RoleResource_Read_def step_defs stub_defs)
  from role_read_takes_only_the_id [OF pd d0 d1 d2 run ex] set_ok upd
  obtain d where d: "State (response run) = Some d" "rm_ID d = StringValue ''r-1''"
      "rm_Scopes d = rm_Scopes ?d" "rm_Name d = rm_Name ?d" "rm_Tenant d = rm_Tenant ?d"
    by auto
  then have "d = reader (StringValue ''r-1'')"
    by (cases d) (simp add: reader_def)
  with d(1) pd d0 d1 d2 ex set_ok run show ?thesis
    by blast
qed

section \<open>Registration\<close>

text \<open>
  Claim C10.  For every provider instance the registered resource constructors are
  exactly the Tenant resource's, and the registered data sources exactly the Tenant data
  source's.  The Role resource's constructor is not among them (the only registered
  constructor builds a Tenant resource), and the Role resource's Metadata reports the
  provider type name followed by \<open>_tenant\<close>, the same type name as the Tenant resource.
\<close>

theorem only_tenant_is_registered:
  "AuthProxy_Resources p = [NewTenantResource] \<and>
   AuthProxy_DataSources p = [NewTenantDataSource] \<and>
   NewRoleResource \<notin> set (AuthProxy_Resources p) \<and>
   map (\<lambda>f. f ()) (AuthProxy_Resources p) =
     [IsTenantResource \<lparr>tenant_providerData = None, tenant_name = []\<rparr>] \<and>
   RoleResource_Metadata r n = n @ ''_tenant'' \<and>
   RoleResource_Metadata r n = TenantResource_Metadata t n"
  by (auto simp: AuthProxy_Resources_def AuthProxy_DataSources_def NewRoleResource_def
      NewTenantResource_def RoleResource_Metadata_def TenantResource_Metadata_def fun_eq_iff)

theorem only_tenant_is_registered_witness:
  "AuthProxy_Resources \<lparr>version = ''dev''\<rparr> = [NewTenantResource] \<and>
   NewRoleResource \<notin> set (AuthProxy_Resources \<lparr>version = ''dev''\<rparr>) \<and>
   RoleResource_Metadata stub_role (fst (AuthProxy_Metadata \<lparr>version = ''dev''\<rparr>))
     = ''authproxy_tenant'' \<and>
   TenantResource_Metadata stub_tenant (fst (AuthProxy_Metadata \<lparr>version = ''dev''\<rparr>))
     = ''authproxy_tenant''"
  using only_tenant_is_registered
    [of "\<lparr>version = ''dev''\<rparr>" stub_role "fst (AuthProxy_Metadata \<lparr>version = ''dev''\<rparr>)"
        stub_tenant]
  by (auto simp: AuthProxy_Metadata_def)

section \<open>Which failures reach the diagnostics\<close>

text \<open>
  For each operation, called with no error among the incoming diagnostics: a
  request-build error, a transport error, a decode error and a rejection whose body cannot
  be read each leave an error diagnostic in the response.  A rejection whose body can be
  read leaves none.
\<close>

lemma TenantResource_Create_diagnostics:
  "tenant_providerData r = Some pd \<Longrightarrow>
   \<not> HasError (Diags resp0) \<Longrightarrow>
   \<not> HasError ds \<Longrightarrow>
   TenantResource_Create w r (ds, Some data) resp0 = Returned run \<Longrightarrow>
   (\<forall>e. TenantCreate_exchange w pd data = RequestBuildError e \<longrightarrow>
      HasError (Diags (response run))) \<and>
   (\<forall>e. TenantCreate_exchange w pd data = TransportError e \<longrightarrow>
      HasError (Diags (response run))) \<and>
   (\<forall>e. TenantCreate_exchange w pd data = DecodeError e \<longrightarrow>
      HasError (Diags (response run))) \<and>
   (\<forall>code e. TenantCreate_exchange w pd data = RemoteRejected code (Inl e) \<longrightarrow>
      HasError (Diags (response run))) \<and>
   (\<forall>code b. TenantCreate_exchange w pd data = RemoteRejected code (Inr b) \<longrightarrow>
      \<not> HasError (Diags (response run)))"
  by (auto simp: TenantResource_Create_def TenantCreate_exchange_def step_defs HasError_Append_iff
      split: if_splits option.splits sum.splits)

lemma TenantResource_Read_diagnostics:
  "tenant_providerData r = Some pd \<Longrightarrow>
   \<not> HasError (Diags resp0) \<Longrightarrow>
   \<not> HasError ds \<Longrightarrow>
   TenantResource_Read w r (ds, Some data) resp0 = Returned run \<Longrightarrow>
   (\<forall>e. TenantRead_exchange w pd data = RequestBuildError e \<longrightarrow>
      HasError (Diags (response run))) \<and>
   (\<forall>e. TenantRead_exchange w pd data = TransportError e \<longrightarrow>
      HasError (Diags (response run))) \<and>
   (\<forall>e. TenantRead_exchange w pd data = DecodeError e \<longrightarrow>
      HasError (Diags (response run))) \<and>
   (\<forall>code e. TenantRead_exchange w pd data = RemoteRejected code (Inl e) \<longrightarrow>
      HasError (Diags (response run))) \<and>
   (\<forall>code b. TenantRead_exchange w pd data = RemoteRejected code (Inr b) \<longrightarrow>
      \<not> HasError (Diags (response run)))"
  by (auto simp: TenantResource_Read_def TenantRead_exchange_def step_defs HasError_Append_iff
      split: if_splits option.splits sum.splits)

lemma TenantResource_Update_diagnostics:
  "tenant_providerData r = Some pd \<Longrightarrow>
   \<not> HasError (Diags resp0) \<Longrightarrow>
   \<not> HasError ds1 \<Longrightarrow>
   \<not> HasError ds2 \<Longrightarrow>
   TenantResource_Update w r (ds1, Some old) (ds2, Some data) resp0 = Returned run \<Longrightarrow>
   (\<forall>e. TenantUpdate_exchange w pd old data = RequestBuildError e \<longrightarrow>
      HasError (Diags (response run))) \<and>
   (\<forall>e. TenantUpdate_exchange w pd old data = TransportError e \<longrightarrow>
      HasError (Diags (response run))) \<and>
   (\<forall>e. TenantUpdate_exchange w pd old data = DecodeError e \<longrightarrow>
      HasError (Diags (response run))) \<and>
   (\<forall>code e. TenantUpdate_exchange w pd old data = RemoteRejected code (Inl e) \<longrightarrow>
      HasError (Diags (response run))) \<and>
   (\<forall>code b. TenantUpdate_exchange w pd old data = RemoteRejected code (Inr b) \<longrightarrow>
      \<not> HasError (Diags (response run)))"
  by (auto simp: TenantResource_Update_def TenantUpdate_exchange_def step_defs HasError_Append_iff
      split: if_splits option.splits sum.splits)

lemma TenantResource_Delete_diagnostics:
  "tenant_providerData r = Some pd \<Longrightarrow>
   \<not> HasError (Diags resp0) \<Longrightarrow>
   \<not> HasError ds \<Longrightarrow>
   TenantResource_Delete w r (ds, Some data) resp0 = Returned run \<Longrightarrow>
   (\<forall>e. TenantDelete_exchange w pd r = RequestBuildError e \<longrightarrow>
      HasError (Diags (response run))) \<and>
   (\<forall>e. TenantDelete_exchange w pd r = TransportError e \<longrightarrow>
      HasError (Diags (response run))) \<and>
   (\<forall>e. TenantDelete_exchange w pd r = DecodeError e \<longrightarrow>
      HasError (Diags (response run))) \<and>
   (\<forall>code e. TenantDelete_exchange w pd r = RemoteRejected code (Inl e) \<longrightarrow>
      HasError (Diags (response run))) \<and>
   (\<forall>code b. TenantDelete_exchange w pd r = RemoteRejected code (Inr b) \<longrightarrow>
      \<not> HasError (Diags (response run)))"
  by (auto simp: TenantResource_Delete_def TenantDelete_exchange_def step_defs HasError_Append_iff
      split: if_splits option.splits sum.splits)

lemma RoleResource_Create_diagnostics:
  "role_providerData r = Some pd \<Longrightarrow>
   \<not> HasError (Diags resp0) \<Longrightarrow>
   \<not> HasError ds \<Longrightarrow>
   \<not> HasError (fst (ElementsAs (rm_Scopes data))) \<Longrightarrow>
   RoleResource_Create w r (ds, Some data) resp0 = Returned run \<Longrightarrow>
   (\<forall>e. RoleCreate_exchange w pd data = RequestBuildError e \<longrightarrow>
      HasError (Diags (response run))) \<and>
   (\<forall>e. RoleCreate_exchange w pd data = TransportError e \<longrightarrow>
      HasError (Diags (response run))) \<and>
   (\<forall>e. RoleCreate_exchange w pd data = DecodeError e \<longrightarrow>
      HasError (Diags (response run))) \<and>
   (\<forall>code e. RoleCreate_exchange w pd data = RemoteRejected code (Inl e) \<longrightarrow>
      HasError (Diags (response run))) \<and>
   (\<forall>code b. RoleCreate_exchange w pd data = RemoteRejected code (Inr b) \<longrightarrow>
      \<not> HasError (Diags (response run)))"
  by (auto simp: RoleResource_Create_def RoleCreate_exchange_def step_defs HasError_Append_iff
      split: if_splits option.splits sum.splits prod.splits)

lemma RoleResource_Read_diagnostics:
  "role_providerData r = Some pd \<Longrightarrow>
   \<not> HasError (Diags resp0) \<Longrightarrow>
   \<not> HasError ds \<Longrightarrow>
   \<not> HasError (fst (ElementsAs (rm_Scopes data))) \<Longrightarrow>
   RoleResource_Read w r (ds, Some data) resp0 = Returned run \<Longrightarrow>
   (\<forall>e. RoleRead_exchange w pd data = RequestBuildError e \<longrightarrow>
      HasError (Diags (response run))) \<and>
   (\<forall>e. RoleRead_exchange w pd data = TransportError e \<longrightarrow>
      HasError (Diags (response run))) \<and>
   (\<forall>e. RoleRead_exchange w pd data = DecodeError e \<longrightarrow>
      HasError (Diags (response run))) \<and>
   (\<forall>code e. RoleRead_exchange w pd data = RemoteRejected code (Inl e) \<longrightarrow>
      HasError (Diags (response run))) \<and>
   (\<forall>code b. RoleRead_exchange w pd data = RemoteRejected code (Inr b) \<longrightarrow>
      \<not> HasError (Diags (response run)))"
  by (auto simp: RoleResource_Read_def RoleRead_exchange_def step_defs HasError_Append_iff
      split: if_splits option.splits sum.splits prod.splits)

lemma RoleResource_Update_diagnostics:
  "role_providerData r = Some pd \<Longrightarrow>
   \<not> HasError (Diags resp0) \<Longrightarrow>
   \<not> HasError ds1 \<Longrightarrow>
   \<not> HasError ds2 \<Longrightarrow>
   RoleResource_Update w r (ds1, Some old) (ds2, Some data) resp0 = Returned run \<Longrightarrow>
   (\<forall>e. RoleUpdate_exchange w pd old data = RequestBuildError e \<longrightarrow>
      HasError (Diags (response run))) \<and>
   (\<forall>e. RoleUpdate_exchange w pd old data = TransportError e \<longrightarrow>
      HasError (Diags (response run))) \<and>
   (\<forall>e. RoleUpdate_exchange w pd old data = DecodeError e \<longrightarrow>
      HasError (Diags (response run))) \<and>
   (\<forall>code e. RoleUpdate_exchange w pd old data = RemoteRejected code (Inl e) \<longrightarrow>
      HasError (Diags (response run))) \<and>
   (\<forall>code b. RoleUpdate_exchange w pd old data = RemoteRejected code (Inr b) \<longrightarrow>
      \<not> HasError (Diags (response run)))"
  by (auto simp: RoleResource_Update_def RoleUpdate_exchange_def step_defs HasError_Append_iff
      split: if_splits option.splits sum.splits)

lemma RoleResource_Delete_diagnostics:
  "role_providerData r = Some pd \<Longrightarrow>
   \<not> HasError (Diags resp0) \<Longrightarrow>
   \<not> HasError ds \<Longrightarrow>
   RoleResource_Delete w r r_name (ds, Some data) resp0 = Returned run \<Longrightarrow>
   (\<forall>e. RoleDelete_exchange w pd r_name = RequestBuildError e \<longrightarrow>
      HasError (Diags (response run))) \<and>
   (\<forall>e. RoleDelete_exchange w pd r_name = TransportError e \<longrightarrow>
      HasError (Diags (response run))) \<and>
   (\<forall>e. RoleDelete_exchange w pd r_name = DecodeError e \<longrightarrow>
      HasError (Diags (response run))) \<and>
   (\<forall>code e. RoleDelete_exchange w pd r_name = RemoteRejected code (Inl e) \<longrightarrow>
      HasError (Diags (response run))) \<and>
   (\<forall>code b. RoleDelete_exchange w pd r_name = RemoteRejected code (Inr b) \<longrightarrow>
      \<not> HasError (Diags (response run)))"
  by (auto simp: RoleResource_Delete_def RoleDelete_exchange_def step_defs HasError_Append_iff
      split: if_splits option.splits sum.splits)

lemma TenantDataSource_Read_diagnostics:
  "\<not> HasError (Diags resp0) \<Longrightarrow>
   \<not> HasError ds \<Longrightarrow>
   TenantDataSource_Read w d (ds, data) resp0 = Returned run \<Longrightarrow>
   (\<forall>e. DataRead_exchange w d data = RequestBuildError e \<longrightarrow>
      HasError (Diags (response run))) \<and>
   (\<forall>e. DataRead_exchange w d data = TransportError e \<longrightarrow>
      HasError (Diags (response run))) \<and>
   (\<forall>e. DataRead_exchange w d data = DecodeError e \<longrightarrow>
      HasError (Diags (response run))) \<and>
   (\<forall>code e. DataRead_exchange w d data = RemoteRejected code (Inl e) \<longrightarrow>
      HasError (Diags (response run))) \<and>
   (\<forall>code b. DataRead_exchange w d data = RemoteRejected code (Inr b) \<longrightarrow>
      \<not> HasError (Diags (response run)))"
  by (auto simp: TenantDataSource_Read_def DataRead_exchange_def step_defs HasError_Append_iff
      split: if_splits option.splits sum.splits)

text \<open>
  Claim C1 asks that every failing outcome, a response with a status other than 200
  included, adds a diagnostics record to the result.  The operations do not do that for
  a rejected exchange: a Tenant Create answered with 409, a Role Create answered with
  409, a data-source Read answered with 404 and a Tenant Delete answered with 500 all
  return with the diagnostics empty; the body of the response is in the log only.
\<close>

theorem non_200_is_swallowed:
  "TenantCreate_exchange (stub_world (answer 409 ''tenant exists'')) stub_pd (lidl StringUnknown)
     = RemoteRejected 409 (Inr ''tenant exists'') \<and>
   TenantResource_Create (stub_world (answer 409 ''tenant exists'')) stub_tenant
       ([], Some (lidl StringUnknown)) empty_resp
     = Ret \<lparr>Diags = [], State = None\<rparr>
         [\<lparr>req_method = ''POST'', req_url = ''https://auth.test/tenants'',
           req_body = Some ''tenant=lidl;'', req_basic_auth = Some (''admin'', ''secret'')\<rparr>]
         (log_auth @ [(Error, ''could not create tenant'', [(''body'', ''tenant exists'')])])
         (Some (lidl StringUnknown)) \<and>
   RoleResource_Create (stub_world (answer 409 ''role exists'')) stub_role
       ([], Some (reader StringUnknown)) empty_resp
     = Ret \<lparr>Diags = [], State = None\<rparr>
         [\<lparr>req_method = ''POST'', req_url = ''https://auth.test/roles'',
           req_body = Some ''name=reader;tenant=acme;scopes=[read,write,];'',
           req_basic_auth = Some (''admin'', ''secret'')\<rparr>]
         (log_auth @ [(Error, ''could not create role'', [(''body'', ''role exists'')])])
         (Some (reader StringUnknown)) \<and>
   TenantDataSource_Read (stub_world (answer 404 ''no such tenant'')) stub_source
       ([], \<lparr>dm_ID = StringNull, dm_Name = StringValue ''lidl''\<rparr>) empty_resp
     = Ret \<lparr>Diags = [], State = None\<rparr>
         [\<lparr>req_method = ''GET'', req_url = ''https://auth.test/tenants/lidl'',
           req_body = None, req_basic_auth = Some (''admin'', ''secret'')\<rparr>]
         (log_auth @ [(Error, ''could not read tenant'', [(''body'', ''no such tenant'')])])
         (Some \<lparr>dm_ID = StringNull, dm_Name = StringValue ''lidl''\<rparr>) \<and>
   TenantResource_Delete (stub_world (answer 500 ''boom'')) stub_tenant
       ([], Some (lidl (StringValue ''t-1''))) \<lparr>Diags = [], State = Some (lidl (StringValue ''t-1''))\<rparr>
     = Ret \<lparr>Diags = [], State = Some (lidl (StringValue ''t-1''))\<rparr>
         [\<lparr>req_method = ''DELETE'', req_url = ''https://auth.test/tenants/'',
           req_body = None, req_basic_auth = Some (''admin'', ''secret'')\<rparr>]
         (log_auth @ [(Error, ''could not delete tenant'', [(''body'', ''boom'')])])
         (Some (lidl (StringValue ''t-1''))) \<and>
   \<not> HasError []"
  by (simp add: TenantResource_Create_def RoleResource_Create_def TenantDataSource_Read_def
      TenantResource_Delete_def TenantCreate_exchange_def step_defs stub_defs)


section \<open>Role Update and Role Delete\<close>

text \<open>
  Claim C2 asks that Role Update issue a request of its own, carrying the role's tenant
  and scopes, and not the Tenant rename.  Renaming the role \<open>reader\<close> of tenant \<open>acme\<close> to
  \<open>writer\<close> sends PATCH \<open>endpoint/tenants\<close> with the payload \<open>{tenant: reader, new_tenant:
  writer}\<close>: the very request that renaming the tenant \<open>reader\<close> to \<open>writer\<close> sends.  Neither
  the role's tenant nor its scopes are in it; the declared \<open>updateRoleRequest\<close> would
  encode differently.
\<close>

theorem role_update_sends_the_tenant_rename:
  "RoleResource_Update (stub_world (answer 200 ''r-1'')) stub_role
       ([], Some (reader (StringValue ''r-1''))) ([], Some (writer (StringValue ''r-1'')))
       \<lparr>Diags = [], State = Some (reader (StringValue ''r-1''))\<rparr>
     = Ret \<lparr>Diags = [], State = Some (writer (StringValue ''r-1''))\<rparr>
         [\<lparr>req_method = ''PATCH'', req_url = ''https://auth.test/tenants'',
           req_body = Some ''tenant=reader;new_tenant=writer;'',
           req_basic_auth = Some (''admin'', ''secret'')\<rparr>]
         (log_auth @ [(Trace, ''updated a tenant resource'', [])])
         (Some (writer (StringValue ''r-1''))) \<and>
   TenantResource_Update (stub_world (answer 200 ''r-1'')) stub_tenant
       ([], Some \<lparr>tm_Name = StringValue ''reader'', tm_ID = StringValue ''r-1''\<rparr>)
       ([], Some \<lparr>tm_Name = StringValue ''writer'', tm_ID = StringValue ''r-1''\<rparr>)
       \<lparr>Diags = [], State = Some \<lparr>tm_Name = StringValue ''reader'', tm_ID = StringValue ''r-1''\<rparr>\<rparr>
     = Ret \<lparr>Diags = [],
            State = Some \<lparr>tm_Name = StringValue ''writer'', tm_ID = StringValue ''r-1''\<rparr>\<rparr>
         [\<lparr>req_method = ''PATCH'', req_url = ''https://auth.test/tenants'',
           req_body = Some ''tenant=reader;new_tenant=writer;'',
           req_basic_auth = Some (''admin'', ''secret'')\<rparr>]
         (log_auth @ [(Trace, ''updated a tenant resource'', [])])
         (Some \<lparr>tm_Name = StringValue ''writer'', tm_ID = StringValue ''r-1''\<rparr>) \<and>
   json_Marshal (stub_world (answer 200 ''r-1''))
       (updateRoleRequest_json \<lparr>urq_Name = ''reader'', urq_Tenant = ''acme'',
          urq_NewName = ''writer'', urq_NewScopes = ''write''\<rparr>)
     = Inr ''name=reader;tenant=acme;new_name=writer;new_scopes=write;''"
  by (simp add: RoleResource_Update_def TenantResource_Update_def step_defs stub_defs
      updateRoleRequest_json_def)


text \<open>
  Claim C3 asks that Role Delete address \<open>/tenants/{tenant}\<close> with the tenant of the role.
  Delete formats its URL from the endpoint and \<open>r.name\<close> and never reads the descriptor's
  tenant.  So, whatever \<open>r.name\<close> is: the requests of a Delete do not depend on the role
  being deleted, and deleting a role of tenant \<open>acme\<close> and deleting a role of tenant
  \<open>globex\<close> send the same DELETE, to the endpoint's \<open>/tenants/\<close> followed by \<open>r.name\<close>.
\<close>

theorem role_delete_ignores_the_role:
  "(\<forall>w r r_name ds d1 d2 resp0.
      requests_of (RoleResource_Delete w r r_name (ds, Some d1) resp0)
        = requests_of (RoleResource_Delete w r r_name (ds, Some d2) resp0)) \<and>
   (\<forall>r_name.
      requests_of (RoleResource_Delete (stub_world (answer 200 ''x'')) stub_role r_name
          ([], Some (reader (StringValue ''r-1'')))
          \<lparr>Diags = [], State = Some (reader (StringValue ''r-1''))\<rparr>)
        = Some [\<lparr>req_method = ''DELETE'', req_url = ''https://auth.test/tenants/'' @ r_name,
                  req_body = None, req_basic_auth = Some (''admin'', ''secret'')\<rparr>] \<and>
      requests_of (RoleResource_Delete (stub_world (answer 200 ''x'')) stub_role r_name
          ([], Some (writer (StringValue ''r-2'')))
          \<lparr>Diags = [], State = Some (writer (StringValue ''r-2''))\<rparr>)
        = Some [\<lparr>req_method = ''DELETE'', req_url = ''https://auth.test/tenants/'' @ r_name,
                  req_body = None, req_basic_auth = Some (''admin'', ''secret'')\<rparr>]) \<and>
   rm_Tenant (reader (StringValue ''r-1'')) = StringValue ''acme'' \<and>
   rm_Tenant (writer (StringValue ''r-2'')) = StringValue ''globex''"
proof (intro conjI allI)
  fix w r r_name ds and d1 d2 :: RoleResourceModel and resp0
  show "requests_of (RoleResource_Delete w r r_name (ds, Some d1) resp0)
          = requests_of (RoleResource_Delete w r r_name (ds, Some d2) resp0)"
    by (simp add: requests_of_def RoleResource_Delete_def step_defs
        split: option.splits sum.splits)
qed (simp_all add: requests_of_def RoleResource_Delete_def step_defs stub_defs)

end
